theory Spec2Isabelle
  imports Complex_Main
begin

section \<open>JavaScript values\<close>

text \<open>
  The directors compute with JavaScript numbers. They are idealised as reals: no rounding
  error, no overflow. A field that the constructor leaves \<^verbatim>\<open>undefined\<close> is a
  \<open>real option\<close>; \<open>None\<close> stands for \<^verbatim>\<open>undefined\<close> and for the \<^verbatim>\<open>NaN\<close> that
  arithmetic on \<^verbatim>\<open>undefined\<close> yields. Every ordering comparison with \<^verbatim>\<open>NaN\<close> or
  \<^verbatim>\<open>undefined\<close> is false in JavaScript, and so is \<^verbatim>\<open>==\<close> between a number and
  \<^verbatim>\<open>undefined\<close>.
\<close>

definition Math_round :: "real \<Rightarrow> real" where
  "Math_round x = of_int (floor (x + 1 / 2))"

definition Math_floor :: "real \<Rightarrow> real" where
  "Math_floor x = of_int (floor x)"

definition Math_ceil :: "real \<Rightarrow> real" where
  "Math_ceil x = of_int (ceiling x)"

definition js_cmp :: "(real \<Rightarrow> real \<Rightarrow> bool) \<Rightarrow> real option \<Rightarrow> real option \<Rightarrow> bool" where
  "js_cmp r a b = (case a of None \<Rightarrow> False | Some x \<Rightarrow> (case b of None \<Rightarrow> False | Some y \<Rightarrow> r x y))"

text \<open>
  The two required-vertical-speed computations divide by a distance. For a zero distance
  JavaScript yields an infinite quotient (or \<^verbatim>\<open>NaN\<close> for \<^verbatim>\<open>0/0\<close>), an angle of
  \<open>\<plusminus>90\<close> degrees and a tangent that is a huge number of that sign; the model keeps the
  sign as \<open>PosInf\<close> or \<open>NegInf\<close>.
\<close>

datatype jsnum = Number real | PosInf | NegInf | NaN

definition js_lt_num :: "real \<Rightarrow> jsnum option \<Rightarrow> bool" where
  "js_lt_num x b = (case b of Some (Number y) \<Rightarrow> x < y | Some PosInf \<Rightarrow> True | _ \<Rightarrow> False)"

text \<open>
  Lines 130--133 of the vertical director, repeated at lines 426--429: the vertical speed
  that covers \<open>altitudeDifference\<close> feet over \<open>distance\<close> nautical miles at the given
  ground speed. The altitude difference is \<open>None\<close> when the indicated altitude was never read.
\<close>

definition requiredVs :: "real option \<Rightarrow> real \<Rightarrow> real \<Rightarrow> jsnum" where
  "requiredVs altitudeDifference distance groundSpeed =
     (case altitudeDifference of
        None \<Rightarrow> NaN
      | Some d \<Rightarrow>
          if distance * 6076.12 \<noteq> 0 then
            (let requiredFpa = (180 / pi) * arctan (d / (distance * 6076.12))
             in Number (- 101.2686667 * groundSpeed * tan (requiredFpa * (pi / 180))))
          else if d = 0 then NaN
          else if groundSpeed = 0 then Number 0
          else if (0 < d) = (0 < groundSpeed) then NegInf
          else PosInf)"


section \<open>The vertical path director (WT\_VnavAutopilot)\<close>

subsection \<open>Enumerations declared outside the director\<close>

text \<open>
  Modelled from the spec: the enumerations \<^verbatim>\<open>VerticalNavModeState\<close>,
  \<^verbatim>\<open>LateralNavModeState\<close>, \<^verbatim>\<open>SegmentType\<close> and \<^verbatim>\<open>NavModeEvent\<close> are declared
  outside the source at hand. The members below are the ones the director names; one more
  member stands for all the others. As with the enumerations that the lateral director
  declares (\<^verbatim>\<open>LNavState.TRACKING = 'TRACKING'\<close>), a member's value is the string of
  its name, and a string is truthy when it is not empty.
\<close>

datatype VerticalNavModeState = PTCH | FLC | VS | ALTC | ALT | GP | OtherVerticalMode

datatype LateralNavModeState = APPR | OtherLateralMode

datatype SegmentType = Departure | OtherSegment

datatype NavModeEvent = VNAV_REQUEST_SLOT_1 | VNAV_REQUEST_SLOT_2

fun VerticalNavModeState_value :: "VerticalNavModeState \<Rightarrow> string" where
  "VerticalNavModeState_value PTCH = ''PTCH''"
| "VerticalNavModeState_value FLC = ''FLC''"
| "VerticalNavModeState_value VS = ''VS''"
| "VerticalNavModeState_value ALTC = ''ALTC''"
| "VerticalNavModeState_value ALT = ''ALT''"
| "VerticalNavModeState_value GP = ''GP''"
| "VerticalNavModeState_value OtherVerticalMode = ''OTHER''"

definition truthy :: "string \<Rightarrow> bool" where
  "truthy s = (s \<noteq> [])"

subsection \<open>What a cycle reads\<close>

text \<open>
  Everything an update cycle reads and does not write itself: the mode selector's fields,
  the upstream trajectory engine's fields (\<open>vnav_\<close>), and the simulator variables
  (\<open>sv_\<close>). The constraint waypoint is \<open>None\<close> when \<^verbatim>\<open>_vnavConstraintWaypoint\<close> is
  \<^verbatim>\<open>undefined\<close> and otherwise carries its \<^verbatim>\<open>cumulativeDistanceInFP\<close>. The other
  readings are numbers and truth values, as the data model of the specification has them:
  \<open>vnav_vnavConstraintType\<close> is the truthiness of \<^verbatim>\<open>_vnavConstraintType\<close>, and the
  active waypoint and the current flight segment are there whenever the director reads them.
\<close>

record vnav_env =
  currentVerticalActiveState :: VerticalNavModeState
  currentLateralActiveState :: LateralNavModeState
  selectedAlt1 :: real
  selectedAlt2 :: real
  currentAltSlotIndex :: int
  vnav_vnavCalculating :: bool
  vnav_vnavConstraintType :: bool
  vnav_pathCalculating :: bool
  vnav_vnavTargetAltitude :: real
  vnav_vnavTargetDistance :: real
  vnav_topOfDescent :: real
  vnav_distanceToTod :: real
  vnav_altDeviation :: real
  vnav_gpExists :: bool
  vnav_gpAngle :: real
  vnav_desiredFPA :: real
  vnav_vnavConstraintWaypoint :: "real option"
  vnav_vnavConstraintAltitude :: real
  vnav_activeWaypointDist :: real
  vnav_activeWaypoint_cumulativeDistanceInFP :: real
  vnav_currentFlightSegment_type :: SegmentType
  vnav_altitude :: real
  sv_INDICATED_ALTITUDE :: real
  sv_AUTOPILOT_ALTITUDE_LOCK_VAR_1 :: real
  sv_AUTOPILOT_ALTITUDE_LOCK_VAR_3 :: real
  sv_GPS_GROUND_SPEED :: real
  sv_AUTOPILOT_VERTICAL_HOLD_VAR_2 :: real
  sv_AUTOPILOT_VERTICAL_HOLD :: real
  Simplane_getVerticalSpeed :: real

subsection \<open>What a cycle writes\<close>

datatype coherent_call =
    AP_ALT_VAR_SET_ENGLISH int "real option" bool
  | AP_VS_VAR_SET_ENGLISH int real

text \<open>
  The director's own fields keep their names. After them come the things outside the
  director that it writes: the new-path flag of the trajectory engine, the first armed
  vertical state and the event queue of the mode selector, the local simulator variables
  (\<open>L_\<close>, read back synchronously), the key events written through
  \<^verbatim>\<open>SimVar.SetSimVarValue\<close> (\<open>K_events\<close>, name and value) and the
  \<^verbatim>\<open>Coherent.call\<close>s, both in the order they were issued.
\<close>

record vnav_state =
  vnavTargetAltitude :: "real option"
  inhibitExecute :: bool
  constraintExists :: bool
  pathArm :: bool
  pathArmAbove :: bool
  pathArmFired :: bool
  pathFromAboveRequiredVs :: "jsnum option"
  pathActive :: bool
  pathActivate :: bool
  obeyingConstraint :: bool
  vnavAltSlot :: "int option"
  indicatedAltitude :: "real option"
  vnav_newPath :: bool
  currentVerticalArmedStates_0 :: "VerticalNavModeState option"
  queuedEvents :: "NavModeEvent list"
  L_WT_VNAV_PATH_STATUS :: real
  L_WT_CJ4_SNOWFLAKE :: real
  L_WT_CJ4_DONUT :: jsnum
  L_AP_CURRENT_TARGET_ALTITUDE_IS_CONSTRAINT :: real
  L_WT_VNAV_TOD_FMC_ALERT :: real
  L_WT_TEMP_ACTIVE_FPA :: real
  L_WT_VNAV_constraintExists :: real
  L_WT_VNAV_pathArm :: real
  L_WT_VNAV_pathActive :: real
  L_WT_VNAV_inhibitExecute :: real
  L_WT_VNAV_obeyingConstraint :: real
  K_events :: "(string \<times> real) list"
  coherent_calls :: "coherent_call list"

text \<open>The constructor, lines 2--30; the world outside the director is a parameter.\<close>

definition constructor :: "vnav_state \<Rightarrow> vnav_state" where
  "constructor w = w\<lparr>
     vnavTargetAltitude := None,
     inhibitExecute := False,
     constraintExists := False,
     pathArm := False,
     pathArmAbove := False,
     pathArmFired := False,
     pathFromAboveRequiredVs := None,
     pathActive := False,
     pathActivate := False,
     obeyingConstraint := False,
     vnavAltSlot := None,
     indicatedAltitude := None\<rparr>"


subsection \<open>The small methods\<close>

text \<open>\<^verbatim>\<open>vnavAltSlotRequest\<close>, lines 455--463.\<close>

definition vnavAltSlotRequest :: "vnav_env \<Rightarrow> vnav_state \<Rightarrow> vnav_state" where
  "vnavAltSlotRequest e s =
     (let altSlot = currentAltSlotIndex e in
      if vnavAltSlot s = Some 1 \<and> altSlot = 2 then
        s\<lparr>queuedEvents := queuedEvents s @ [VNAV_REQUEST_SLOT_1]\<rparr>
      else if vnavAltSlot s = Some 2 \<and> altSlot = 1 then
        s\<lparr>queuedEvents := queuedEvents s @ [VNAV_REQUEST_SLOT_2]\<rparr>
      else s)"

text \<open>\<^verbatim>\<open>recalculate\<close>, lines 465--472.\<close>

definition recalculate :: "vnav_env \<Rightarrow> vnav_state \<Rightarrow> vnav_state" where
  "recalculate e s =
     vnavAltSlotRequest e
       (s\<lparr>pathArm := False, pathArmAbove := False, pathActive := False, pathActivate := False\<rparr>)"

text \<open>\<^verbatim>\<open>cancelConstraint\<close>, lines 448--453.\<close>

definition cancelConstraint :: "vnav_state \<Rightarrow> vnav_state" where
  "cancelConstraint s =
     s\<lparr>vnavAltSlot := Some 1,
       queuedEvents := queuedEvents s @ [VNAV_REQUEST_SLOT_1],
       obeyingConstraint := False\<rparr>"

text \<open>\<^verbatim>\<open>deactivate\<close>, lines 353--365.\<close>

definition deactivate :: "vnav_state \<Rightarrow> vnav_state" where
  "deactivate s =
     s\<lparr>constraintExists := False,
       pathArm := False,
       pathArmAbove := False,
       pathActive := False,
       pathActivate := False,
       pathArmFired := False,
       L_AP_CURRENT_TARGET_ALTITUDE_IS_CONSTRAINT := 0,
       L_WT_CJ4_SNOWFLAKE := 0,
       L_WT_VNAV_PATH_STATUS := 0,
       L_WT_CJ4_DONUT := Number 0\<rparr>"

text \<open>\<^verbatim>\<open>failed\<close>, lines 367--379.\<close>

definition failed :: "vnav_env \<Rightarrow> vnav_state \<Rightarrow> vnav_state" where
  "failed e s =
     s\<lparr>constraintExists := False,
       pathArm := False,
       pathActive := False,
       pathActivate := False,
       pathArmFired := False,
       coherent_calls := coherent_calls s @ [AP_ALT_VAR_SET_ENGLISH 1 (Some (vnav_altitude e)) True],
       L_AP_CURRENT_TARGET_ALTITUDE_IS_CONSTRAINT := 0,
       L_WT_CJ4_SNOWFLAKE := 0,
       L_WT_VNAV_PATH_STATUS := 0,
       L_WT_CJ4_DONUT := Number 0\<rparr>"

text \<open>
  \<^verbatim>\<open>setTargetAltitude\<close>, lines 381--398. The caller that passes no argument passes
  the held target, which is also what the default parameter gives for \<^verbatim>\<open>undefined\<close>.
\<close>

definition setTargetAltitude :: "vnav_env \<Rightarrow> real option \<Rightarrow> vnav_state \<Rightarrow> vnav_state" where
  "setTargetAltitude e targetAltitude s =
     (if currentLateralActiveState e = APPR then
        s\<lparr>coherent_calls := coherent_calls s @
             [AP_ALT_VAR_SET_ENGLISH 2 (map_option (\<lambda>t. Math_round (t - 500)) targetAltitude) False],
          L_AP_CURRENT_TARGET_ALTITUDE_IS_CONSTRAINT := 0\<rparr>
      else
        (let isClimb = (if vnav_currentFlightSegment_type e = Departure then True else False);
             selectedAltitude = sv_AUTOPILOT_ALTITUDE_LOCK_VAR_1 e;
             updatedTargetAltitude =
               map_option (\<lambda>t. if isClimb then min t selectedAltitude else max t selectedAltitude)
                 targetAltitude;
             updatedTargetAltitude = map_option Math_floor updatedTargetAltitude
         in s\<lparr>coherent_calls := coherent_calls s @
                  [AP_ALT_VAR_SET_ENGLISH 2 (map_option Math_floor updatedTargetAltitude) True],
               L_AP_CURRENT_TARGET_ALTITUDE_IS_CONSTRAINT := 1\<rparr>))"

text \<open>\<^verbatim>\<open>setSnowflake\<close>, lines 400--412.\<close>

definition setSnowflake :: "vnav_env \<Rightarrow> vnav_state \<Rightarrow> vnav_state" where
  "setSnowflake e s =
     (if vnav_pathCalculating e \<and> \<bar>vnav_altDeviation e\<bar> < 1001 then
        (if L_WT_CJ4_SNOWFLAKE s \<noteq> 1 then s\<lparr>L_WT_CJ4_SNOWFLAKE := 1\<rparr> else s)
      else
        (if L_WT_CJ4_SNOWFLAKE s = 1 then s\<lparr>L_WT_CJ4_SNOWFLAKE := 0\<rparr> else s))"

text \<open>
  The flight-path angle in force and the vertical speed that flies it, as computed at
  lines 315--320 and again at lines 417--419.
\<close>

definition activeFPA :: "vnav_env \<Rightarrow> real" where
  "activeFPA e =
     (if currentLateralActiveState e = APPR \<and> vnav_gpExists e then vnav_gpAngle e
      else vnav_desiredFPA e)"

definition desiredVerticalSpeed :: "vnav_env \<Rightarrow> real" where
  "desiredVerticalSpeed e =
     - 101.2686667 * sv_GPS_GROUND_SPEED e * tan (activeFPA e * (pi / 180))"

text \<open>
  \<^verbatim>\<open>setDonut\<close>, lines 414--435. A number is truthy when it is not zero.
\<close>

definition setDonut :: "vnav_env \<Rightarrow> vnav_state \<Rightarrow> vnav_state" where
  "setDonut e s =
     (if pathActive s then s\<lparr>L_WT_CJ4_DONUT := Number (desiredVerticalSpeed e)\<rparr>
      else
        (case vnav_vnavConstraintWaypoint e of
           Some constraintDistance \<Rightarrow>
             if vnav_activeWaypointDist e \<noteq> 0 \<and> vnav_distanceToTod e < 50 then
               (let currentDistance =
                      vnav_activeWaypoint_cumulativeDistanceInFP e - vnav_activeWaypointDist e;
                    distanceToConstraint = constraintDistance - currentDistance;
                    altitudeDifference =
                      map_option (\<lambda>a. a - vnav_vnavConstraintAltitude e) (indicatedAltitude s);
                    groundSpeed = sv_GPS_GROUND_SPEED e;
                    reqVs = requiredVs altitudeDifference distanceToConstraint groundSpeed
                in s\<lparr>L_WT_CJ4_DONUT := reqVs\<rparr>)
             else s\<lparr>L_WT_CJ4_DONUT := Number 0\<rparr>
         | None \<Rightarrow> s\<lparr>L_WT_CJ4_DONUT := Number 0\<rparr>))"

text \<open>\<^verbatim>\<open>checkPreselector\<close>, lines 437--446.\<close>

definition checkPreselector :: "vnav_env \<Rightarrow> vnav_state \<Rightarrow> vnav_state" where
  "checkPreselector e s =
     (let approachingTodDistance = 0.0125 * sv_GPS_GROUND_SPEED e in
      if \<not> pathArm s \<and> \<not> pathArmFired s \<and> vnav_distanceToTod e < approachingTodDistance
         \<and> vnav_distanceToTod e > 0 then
        (if L_WT_VNAV_TOD_FMC_ALERT s \<noteq> 1 then
           s\<lparr>L_WT_VNAV_TOD_FMC_ALERT := 1, pathArmFired := True\<rparr>
         else s)
      else s)"

text \<open>\<^verbatim>\<open>monitorValues\<close>, lines 474--482.\<close>

definition monitorValues :: "vnav_state \<Rightarrow> vnav_state" where
  "monitorValues s =
     s\<lparr>L_WT_VNAV_constraintExists := (if constraintExists s then 1 else 0),
       L_WT_VNAV_pathArm := (if pathArm s then 1 else 0),
       L_WT_VNAV_pathActive := (if pathActive s then 1 else 0),
       L_WT_VNAV_inhibitExecute := (if inhibitExecute s then 1 else 0),
       L_WT_VNAV_obeyingConstraint := (if obeyingConstraint s then 1 else 0)\<rparr>"


subsection \<open>The execution phase\<close>

text \<open>
  \<^verbatim>\<open>execute\<close>, lines 186--348, in the order of the source. \<open>pathStatusSimVar\<close> is
  read once, at line 211, and compared against throughout.
\<close>

text \<open>Lines 213--221: time to activate.\<close>

definition execute_activate :: "vnav_env \<Rightarrow> real \<Rightarrow> vnav_state \<Rightarrow> vnav_state" where
  "execute_activate e pathStatusSimVar s =
     (if pathActivate s then
        (let s = setTargetAltitude e (vnavTargetAltitude s) s;
             s = s\<lparr>pathActive := True, pathActivate := False\<rparr>
         in if pathStatusSimVar \<noteq> 3 then s\<lparr>L_WT_VNAV_PATH_STATUS := 3\<rparr> else s)
      else s)"

text \<open>Lines 223--264: the path status, by priority active, armed from below, armed from above.\<close>

definition execute_status :: "vnav_env \<Rightarrow> real \<Rightarrow> vnav_state \<Rightarrow> vnav_state" where
  "execute_status e pathStatusSimVar s =
     (if pathActive s then
        (let s = (if pathStatusSimVar \<noteq> 3 then s\<lparr>L_WT_VNAV_PATH_STATUS := 3\<rparr> else s);
             s = (if vnavTargetAltitude s \<noteq> Some (Math_round (selectedAlt2 e))
                  then setTargetAltitude e (vnavTargetAltitude s) s else s)
         in if currentAltSlotIndex e \<noteq> 2 \<and> vnav_altDeviation e > 0
            then s\<lparr>vnavAltSlot := Some 2\<rparr> else s)
      else if pathArm s then
        (if pathStatusSimVar \<noteq> 1 then s\<lparr>L_WT_VNAV_PATH_STATUS := 1\<rparr> else s)
      else if pathArmAbove s then
        (let currentVS = Math_round (Simplane_getVerticalSpeed e) in
         if js_lt_num currentVS (pathFromAboveRequiredVs s) then
           (if pathStatusSimVar \<noteq> 1 then s\<lparr>L_WT_VNAV_PATH_STATUS := 1\<rparr> else s)
         else
           (if pathStatusSimVar \<noteq> 2 then s\<lparr>L_WT_VNAV_PATH_STATUS := 2\<rparr> else s))
      else
        recalculate e (if pathStatusSimVar \<noteq> 0 then s\<lparr>L_WT_VNAV_PATH_STATUS := 0\<rparr> else s))"

text \<open>Lines 268--304: no path, a constraint waypoint exists.\<close>

definition execute_constraint :: "vnav_env \<Rightarrow> vnav_state \<Rightarrow> vnav_state" where
  "execute_constraint e s =
     (let altSet2 = selectedAlt2 e;
          s = (if Math_round altSet2 \<noteq> Math_round (vnav_vnavConstraintAltitude e)
                  \<and> (truthy (VerticalNavModeState_value ALT) \<or> truthy (VerticalNavModeState_value ALTC))
               then setTargetAltitude e (Some (vnav_vnavConstraintAltitude e)) s else s)
      in if currentVerticalActiveState e = PTCH \<or> currentVerticalActiveState e = VS
            \<or> currentVerticalActiveState e = FLC then
           (let altSlot = currentAltSlotIndex e;
                altSet1 = selectedAlt1 e;
                s = (if Math_round altSet2 \<noteq> Math_round (vnav_vnavConstraintAltitude e)
                     then setTargetAltitude e (Some (vnav_vnavConstraintAltitude e)) s else s)
            in if vnav_currentFlightSegment_type e = Departure then
                 (let s = s\<lparr>obeyingConstraint := True\<rparr> in
                  if altSet1 > altSet2 \<and> (altSlot = 1 \<or> altSlot = 3) then s\<lparr>vnavAltSlot := Some 2\<rparr>
                  else if altSet1 \<le> altSet2 \<and> altSlot = 2 then s\<lparr>vnavAltSlot := Some 1\<rparr>
                  else s)
               else if vnav_currentFlightSegment_type e \<noteq> Departure then
                 (let s = s\<lparr>obeyingConstraint := True\<rparr> in
                  if altSet1 < altSet2 \<and> altSlot = 1 then s\<lparr>vnavAltSlot := Some 2\<rparr>
                  else if altSet1 \<ge> altSet2 \<and> altSlot = 2 then s\<lparr>vnavAltSlot := Some 1\<rparr>
                  else s)
               else s)
         else s)"

text \<open>
  Lines 318--342: the vertical speed to command on the path, from the deviation and the
  distance to the target, rounded up to a multiple of 100.
\<close>

definition setVerticalSpeed :: "vnav_env \<Rightarrow> real" where
  "setVerticalSpeed e =
     (let maxVerticalSpeed = 101.2686667 * sv_GPS_GROUND_SPEED e * tan (6 * (pi / 180));
          maxCorrection = maxVerticalSpeed + desiredVerticalSpeed e;
          setVerticalSpeed =
            (if vnav_vnavTargetDistance e < 1 \<and> vnav_vnavTargetDistance e > 0 then
               desiredVerticalSpeed e
             else if vnav_altDeviation e > 10 then
               (let correction = min (max (2.1 * vnav_altDeviation e) 100) maxCorrection
                in desiredVerticalSpeed e - correction)
             else if vnav_altDeviation e < - 10 then
               (let correction =
                      min (max (- 2.1 * vnav_altDeviation e) 100) (- 1 * desiredVerticalSpeed e)
                in desiredVerticalSpeed e + correction)
             else desiredVerticalSpeed e)
      in 100 * Math_ceil (setVerticalSpeed / 100))"

text \<open>Lines 313--347: set the vertical speed for the path.\<close>

definition execute_path :: "vnav_env \<Rightarrow> vnav_state \<Rightarrow> vnav_state" where
  "execute_path e s =
     (let s = s\<lparr>L_WT_TEMP_ACTIVE_FPA := activeFPA e\<rparr>;
          s = (if vnavTargetAltitude s \<noteq> Some (Math_floor (selectedAlt2 e))
               then setTargetAltitude e (vnavTargetAltitude s) s else s);
          s = s\<lparr>coherent_calls := coherent_calls s @ [AP_VS_VAR_SET_ENGLISH 2 (setVerticalSpeed e)]\<rparr>
      in if sv_AUTOPILOT_VERTICAL_HOLD e \<noteq> 1 \<and> vnav_altDeviation e > 0
         then s\<lparr>K_events := K_events s @ [(''K:AP_PANEL_VS_HOLD'', 1)]\<rparr> else s)"

text \<open>Lines 266--347: the commands.\<close>

definition execute_commands :: "vnav_env \<Rightarrow> vnav_state \<Rightarrow> vnav_state" where
  "execute_commands e s =
     (if \<not> pathActive s \<and> constraintExists s then
        (let s = (case vnav_vnavConstraintWaypoint e of
                    Some w \<Rightarrow> execute_constraint e s
                  | None \<Rightarrow> s\<lparr>L_AP_CURRENT_TARGET_ALTITUDE_IS_CONSTRAINT := 0, vnavAltSlot := Some 1\<rparr>)
         in if sv_AUTOPILOT_VERTICAL_HOLD_VAR_2 e \<noteq> 0
            then s\<lparr>coherent_calls := coherent_calls s @ [AP_VS_VAR_SET_ENGLISH 2 0]\<rparr> else s)
      else if pathActive s then execute_path e s
      else s)"

definition execute :: "vnav_env \<Rightarrow> vnav_state \<Rightarrow> vnav_state" where
  "execute e s =
     (let s = checkPreselector e s;
          s = setSnowflake e s;
          s = setDonut e s;
          s = monitorValues s
      in if inhibitExecute s then s
         else
           (let pathStatusSimVar = L_WT_VNAV_PATH_STATUS s;
                s = execute_activate e pathStatusSimVar s;
                s = execute_status e pathStatusSimVar s
            in execute_commands e s))"

subsection \<open>The update cycle\<close>

text \<open>
  \<^verbatim>\<open>update\<close>, lines 42--181. A block that can end the cycle with \<^verbatim>\<open>return\<close>
  yields \<open>Returned\<close>, and \<open>Continues\<close> otherwise.
\<close>

datatype control = Returned vnav_state | Continues vnav_state

text \<open>
  Lines 44--52: intercepting the constraint. The inner condition is the assignment
  \<^verbatim>\<open>currentVerticalArmedStates[0] = VerticalNavModeState.GP\<close>: it stores the value and
  is decided by the truthiness of the value stored.
\<close>

definition interceptingConstraint :: "vnav_env \<Rightarrow> vnav_state \<Rightarrow> vnav_state" where
  "interceptingConstraint e s =
     (if pathActive s = True \<and> currentVerticalActiveState e = ALTC \<and> inhibitExecute s \<noteq> True then
        (let s = s\<lparr>currentVerticalArmedStates_0 := Some GP\<rparr> in
         if truthy (VerticalNavModeState_value GP) then
           s\<lparr>inhibitExecute := False, L_WT_VNAV_PATH_STATUS := 1\<rparr>
         else
           s\<lparr>inhibitExecute := True, L_WT_VNAV_PATH_STATUS := 0\<rparr>)
      else s)"

text \<open>Lines 58--66: constraint data.\<close>

definition constraintData :: "vnav_env \<Rightarrow> vnav_state \<Rightarrow> vnav_state" where
  "constraintData e s =
     (if vnav_vnavConstraintType e then s\<lparr>constraintExists := True\<rparr>
      else
        (let s = s\<lparr>constraintExists := False\<rparr> in
         if obeyingConstraint s = True then cancelConstraint s else s))"

text \<open>Lines 73--86: is there a new path?\<close>

definition isThereANewPath :: "vnav_env \<Rightarrow> vnav_state \<Rightarrow> control" where
  "isThereANewPath e s =
     (if vnav_newPath s then
        (if js_cmp (>) (vnavTargetAltitude s) (Some (vnav_vnavTargetAltitude e))
            \<and> js_cmp (>) (indicatedAltitude s) (map_option (\<lambda>t. t + 100) (vnavTargetAltitude s))
            \<and> vnav_altDeviation e < - 100 then
           Returned (s\<lparr>inhibitExecute := True\<rparr>)
         else
           Continues (s\<lparr>inhibitExecute := False,
                        pathArm := False,
                        pathArmAbove := False,
                        pathActive := False,
                        pathActivate := False,
                        vnav_newPath := False\<rparr>))
      else Continues s)"

text \<open>Lines 89--115: can the path arm?\<close>

definition canPathArm :: "vnav_env \<Rightarrow> vnav_state \<Rightarrow> vnav_state" where
  "canPathArm e s =
     (if \<not> pathActive s then
        (let verticalMode = currentVerticalActiveState e;
             currentAlt3 = sv_AUTOPILOT_ALTITUDE_LOCK_VAR_3 e
         in if (verticalMode = ALTC \<or> verticalMode = ALT)
               \<and> Math_round currentAlt3 = Math_round (vnav_vnavTargetAltitude e) then
              s\<lparr>pathArm := False, pathArmAbove := False\<rparr>
            else if vnav_altDeviation e \<le> 1000 \<and> vnav_distanceToTod e < 20 \<and> vnav_distanceToTod e \<ge> 0
                    \<and> (js_cmp (<) (Some (selectedAlt1 e + 75)) (indicatedAltitude s)
                       \<or> (currentLateralActiveState e = APPR \<and> vnav_gpExists e)) then
              s\<lparr>pathArm := True, pathArmAbove := False\<rparr>
            else if vnav_altDeviation e > 1000 \<and> vnav_topOfDescent e > vnav_vnavTargetDistance e
                    \<and> (js_cmp (<) (Some (selectedAlt1 e + 75)) (indicatedAltitude s)
                       \<or> (currentLateralActiveState e = APPR \<and> vnav_gpExists e)) then
              s\<lparr>pathArmAbove := True, pathArm := False\<rparr>
            else
              s\<lparr>pathArm := False, pathArmAbove := False\<rparr>)
      else s)"

text \<open>Lines 119--139: can the path execute?\<close>

definition canPathExecute :: "vnav_env \<Rightarrow> vnav_state \<Rightarrow> vnav_state" where
  "canPathExecute e s =
     (if pathArm s \<and> \<not> pathActive s then
        (if vnav_altDeviation e > - 300 \<and> vnav_altDeviation e < 1000 then
           s\<lparr>vnavTargetAltitude := Some (vnav_vnavTargetAltitude e), pathActivate := True\<rparr>
         else s)
      else if pathArmAbove s \<and> \<not> pathActive s then
        (let altitudeDifference =
               map_option (\<lambda>a. a - vnav_vnavTargetAltitude e) (indicatedAltitude s);
             groundSpeed = sv_GPS_GROUND_SPEED e;
             s = s\<lparr>pathFromAboveRequiredVs :=
                     Some (requiredVs altitudeDifference (vnav_vnavTargetDistance e) groundSpeed)\<rparr>
         in if vnav_altDeviation e > - 300 \<and> vnav_altDeviation e < 300 then
              s\<lparr>vnavTargetAltitude := Some (vnav_vnavTargetAltitude e), pathActivate := True\<rparr>
            else s)
      else s)"

text \<open>Lines 142--166: is the path active?\<close>

definition isPathActive :: "vnav_env \<Rightarrow> vnav_state \<Rightarrow> control" where
  "isPathActive e s =
     (if pathActive s then
        (if js_cmp (=) (map_option Math_round (vnavTargetAltitude s))
              (Some (Math_round (vnav_vnavTargetAltitude e))) then
           Continues s
         else if js_cmp (>) (Some (vnav_vnavTargetAltitude e))
                   (map_option (\<lambda>t. t + 100) (vnavTargetAltitude s)) then
           Returned (deactivate (setTargetAltitude e (vnavTargetAltitude s) s))
         else
           (let s = s\<lparr>pathArmFired := False\<rparr> in
            if vnav_distanceToTod e > 1 then Continues (s\<lparr>pathActive := False\<rparr>)
            else
              Continues (s\<lparr>vnavTargetAltitude := Some (vnav_vnavTargetAltitude e),
                           pathActive := False,
                           pathActivate := True\<rparr>)))
      else Continues s)"

text \<open>Lines 69--166: path data.\<close>

definition pathData :: "vnav_env \<Rightarrow> vnav_state \<Rightarrow> control" where
  "pathData e s =
     (case isThereANewPath e s of
        Returned s \<Rightarrow> Returned s
      | Continues s \<Rightarrow> isPathActive e (canPathExecute e (canPathArm e s)))"

definition update :: "vnav_env \<Rightarrow> vnav_state \<Rightarrow> vnav_state" where
  "update e s =
     (let s = interceptingConstraint e s in
      if vnav_vnavCalculating e then
        (let s = s\<lparr>indicatedAltitude := Some (sv_INDICATED_ALTITUDE e)\<rparr>;
             s = constraintData e s
         in if vnav_pathCalculating e then
              (case pathData e s of
                 Returned s \<Rightarrow> s
               | Continues s \<Rightarrow> vnavAltSlotRequest e (execute e s))
            else if constraintExists s = True then vnavAltSlotRequest e (execute e s)
            else recalculate e s)
      else vnavAltSlotRequest e (deactivate s))"

text \<open>\<^verbatim>\<open>activate\<close>, lines 35--37.\<close>

definition activate :: "vnav_env \<Rightarrow> vnav_state \<Rightarrow> vnav_state" where
  "activate e s = update e s"



subsection \<open>Cycles in sequence\<close>

text \<open>
  Lines 44--66: what a cycle with upstream data does before it looks at the path.
\<close>

definition cycleInputs :: "vnav_env \<Rightarrow> vnav_state \<Rightarrow> vnav_state" where
  "cycleInputs e s =
     constraintData e
       ((interceptingConstraint e s)\<lparr>indicatedAltitude := Some (sv_INDICATED_ALTITUDE e)\<rparr>)"


text \<open>
  The condition of lines 74--75 in terms of the state at the start of the cycle: line 55
  has by then stored the indicated altitude that the cycle reads.
\<close>

definition inhibitCondition :: "vnav_env \<Rightarrow> vnav_state \<Rightarrow> bool" where
  "inhibitCondition e s =
     ((case vnavTargetAltitude s of
         None \<Rightarrow> False
       | Some held \<Rightarrow> vnav_vnavTargetAltitude e < held \<and> held + 100 < sv_INDICATED_ALTITUDE e)
      \<and> vnav_altDeviation e < - 100)"

text \<open>
  The life of a director: once constructed, its methods are called in any order, each with
  any readings; in between, the world outside may change whatever of its own the director
  reads back (the new-path signal, the first armed state, the event queue, the path status,
  the snowflake and the top-of-descent alert).
\<close>

datatype vnav_call =
    Activate vnav_env
  | Update vnav_env
  | Deactivate
  | Failed vnav_env
  | Outside bool "VerticalNavModeState option" "NavModeEvent list" real real real

fun call :: "vnav_call \<Rightarrow> vnav_state \<Rightarrow> vnav_state" where
  "call (Activate e) s = activate e s"
| "call (Update e) s = update e s"
| "call Deactivate s = deactivate s"
| "call (Failed e) s = failed e s"
| "call (Outside b a q p f t) s =
     s\<lparr>vnav_newPath := b,
       currentVerticalArmedStates_0 := a,
       queuedEvents := q,
       L_WT_VNAV_PATH_STATUS := p,
       L_WT_CJ4_SNOWFLAKE := f,
       L_WT_VNAV_TOD_FMC_ALERT := t\<rparr>"

fun calls :: "vnav_call list \<Rightarrow> vnav_state \<Rightarrow> vnav_state" where
  "calls [] s = s"
| "calls (c # cs) s = calls cs (call c s)"

subsection \<open>The vertical speed as the specification words it\<close>

text \<open>
  The specification's sentence on the commanded vertical speed, for comparison with
  \<open>setVerticalSpeed\<close>: the desired vertical speed plus or minus a correction, which is
  2.1 times the deviation, at least 100, at most the maximum correction from the 6 degree
  path, and applied towards the path; no correction within 10 ft; rounded up to a multiple
  of 100.
\<close>

definition specifiedVerticalSpeed :: "vnav_env \<Rightarrow> real" where
  "specifiedVerticalSpeed e =
     (let maxCorrection =
            101.2686667 * sv_GPS_GROUND_SPEED e * tan (6 * (pi / 180)) + desiredVerticalSpeed e;
          correction = min (max (2.1 * \<bar>vnav_altDeviation e\<bar>) 100) maxCorrection;
          v = (if vnav_altDeviation e > 10 then desiredVerticalSpeed e - correction
               else if vnav_altDeviation e < - 10 then desiredVerticalSpeed e + correction
               else desiredVerticalSpeed e)
      in 100 * Math_ceil (v / 100))"


section \<open>The lateral navigation director (LNavDirector)\<close>

subsection \<open>Data\<close>

record LatLongAlt =
  lat :: real
  long :: real

text \<open>
  A waypoint with the fields the director reads; \<open>coordinates\<close> is
  \<^verbatim>\<open>infos.coordinates\<close>. A flag that is absent in JavaScript is falsy, hence \<open>False\<close>.
\<close>

record WayPoint =
  coordinates :: LatLongAlt
  isFlyover :: bool
  isRunway :: bool
  endsInDiscontinuity :: bool
  hasHold :: bool

record ManagedFlightPlan =
  waypoints :: "WayPoint list"
  activeWaypointIndex :: int

text \<open>
  Modelled from the spec: \<^verbatim>\<open>ManagedFlightPlan.getWaypoint\<close> is declared outside the
  source at hand. The plan is an ordered sequence of waypoints; an index outside it has no
  waypoint, which is \<^verbatim>\<open>undefined\<close> in JavaScript and \<open>None\<close> here.
\<close>

definition getWaypoint :: "ManagedFlightPlan \<Rightarrow> int \<Rightarrow> WayPoint option" where
  "getWaypoint plan i =
     (if 0 \<le> i \<and> i < int (length (waypoints plan)) then Some (waypoints plan ! nat i) else None)"

record AircraftState =
  trueAirspeed :: real
  groundSpeed :: real
  magVar :: real
  position :: LatLongAlt
  windSpeed :: real
  windDirection :: real
  trueHeading :: real
  magneticHeading :: real
  trueTrack :: real
  bankAngle :: real

datatype FlightPlanSequencing = AUTO | INHIBIT

datatype LNavState = TRACKING | TURN_COMPLETING | IN_DISCONTINUITY

text \<open>
  Modelled from the spec: \<^verbatim>\<open>HoldsDirectorState\<close> is declared outside the source at
  hand; the director names \<open>NONE\<close> and \<open>EXITED\<close>, one more member stands for the others.
\<close>

datatype HoldsDirectorState = NONE | EXITED | OtherHoldState

datatype js_error = TypeError

text \<open>The navigation sensitivities, lines 436--446.\<close>

definition NavSensitivity_NORMAL :: nat where
  "NavSensitivity_NORMAL = 0"

text \<open>\<^verbatim>\<open>LNavDirectorOptions\<close>, lines 329--357.\<close>

record LNavDirectorOptions =
  minimumTrackingDistance :: real
  maxBankAngle :: real
  bankRate :: real
  maxTurnAnticipationAngle :: real
  maxTurnAnticipationDistance :: "AircraftState \<Rightarrow> real"
  degreesRollout :: real

definition LNavDirectorOptions_constructor :: LNavDirectorOptions where
  "LNavDirectorOptions_constructor =
     \<lparr>minimumTrackingDistance = 1,
      maxBankAngle = 30,
      bankRate = 10,
      maxTurnAnticipationAngle = 110,
      maxTurnAnticipationDistance = (\<lambda>planeState. if trueAirspeed planeState < 350 then 7 else 10),
      degreesRollout = 15\<rparr>"

text \<open>
  The geometry functions (\<^verbatim>\<open>AutopilotMath\<close>, \<^verbatim>\<open>GeoMath\<close>,
  \<^verbatim>\<open>Avionics.Utils\<close>, \<^verbatim>\<open>LatLon\<close>) and the holds director are declared outside
  the source at hand. The director is modelled for any such functions: they are its first
  parameter. \<open>'h\<close> is the state of the holds director.
\<close>

record 'h collaborators =
  desiredTrack :: "LatLongAlt \<Rightarrow> LatLongAlt \<Rightarrow> LatLongAlt \<Rightarrow> real"
  crossTrack :: "LatLongAlt \<Rightarrow> LatLongAlt \<Rightarrow> LatLongAlt \<Rightarrow> real"
  isAbeam :: "real \<Rightarrow> LatLongAlt \<Rightarrow> LatLongAlt \<Rightarrow> bool"
  interceptAngle :: "real \<Rightarrow> nat \<Rightarrow> real"
  normalizeHeading :: "real \<Rightarrow> real"
  windCorrectionAngle :: "real \<Rightarrow> real \<Rightarrow> real \<Rightarrow> real \<Rightarrow> real"
  turnRadius :: "real \<Rightarrow> real \<Rightarrow> real"
  correctMagvar :: "real \<Rightarrow> real \<Rightarrow> real"
  removeMagvar :: "real \<Rightarrow> real \<Rightarrow> real"
  angleDiff :: "real \<Rightarrow> real \<Rightarrow> real"
  computeGreatCircleHeading :: "LatLongAlt \<Rightarrow> LatLongAlt \<Rightarrow> real"
  distanceTo :: "LatLongAlt \<Rightarrow> LatLongAlt \<Rightarrow> real"
  initialBearingTo :: "LatLongAlt \<Rightarrow> LatLongAlt \<Rightarrow> real"
  isHoldExited :: "'h \<Rightarrow> int \<Rightarrow> bool"
  holds_update :: "'h \<Rightarrow> int \<Rightarrow> 'h"
  holds_state :: "'h \<Rightarrow> HoldsDirectorState"

text \<open>The simulator variables a cycle of the lateral director reads.\<close>

record lnav_env =
  sim_FlightPlan_Version :: real
  sim_GPS_POSITION_LAT :: real
  sim_GPS_POSITION_LON :: real
  sim_MAGVAR :: real
  sim_GPS_GROUND_SPEED :: real
  sim_AIRSPEED_TRUE :: real
  sim_AMBIENT_WIND_DIRECTION :: real
  sim_AMBIENT_WIND_VELOCITY :: real
  sim_PLANE_HEADING_DEGREES_TRUE :: real
  sim_PLANE_HEADING_DEGREES_MAGNETIC :: real
  sim_GPS_GROUND_TRUE_TRACK :: real
  sim_PLANE_BANK_DEGREES :: real

text \<open>
  The director holds a reference to the flight plan of the flight plan manager, not a copy:
  \<open>activeFlightPlan\<close> says whether the reference is set, and the one plan object lives in
  \<open>fpm_flightPlan\<close>, where both the director and the manager read and write it. After the
  director's fields come the local simulator variables it writes and the
  \<^verbatim>\<open>HEADING_BUG_SET\<close> calls, in the order they were issued.
\<close>

datatype plan_ref = FlightPlan_0

record 'h lnav_state =
  currentFlightPlanVersion :: real
  activeFlightPlan :: "plan_ref option"
  options :: LNavDirectorOptions
  sequencingMode :: FlightPlanSequencing
  state :: LNavState
  holdsDirector :: 'h
  fpm_flightPlan :: ManagedFlightPlan
  L_WT_CJ4_WPT_ALERT :: real
  L_WT_CJ4_IN_DISCONTINUITY :: real
  L_WT_CJ4_XTK :: real
  L_WT_CJ4_DTK :: real
  HEADING_BUG_SET :: "(int \<times> real) list"

text \<open>
  Modelled from the spec: \<^verbatim>\<open>FlightPlanManager.setActiveWaypointIndex\<close> is declared
  outside the source at hand; it makes the given index the active-waypoint index of the plan.
\<close>

definition setActiveWaypointIndex :: "int \<Rightarrow> 'h lnav_state \<Rightarrow> 'h lnav_state" where
  "setActiveWaypointIndex i s = s\<lparr>fpm_flightPlan := (fpm_flightPlan s)\<lparr>activeWaypointIndex := i\<rparr>\<rparr>"

definition RAD2DEG :: real where
  "RAD2DEG = 180 / pi"

definition DEG2RAD :: real where
  "DEG2RAD = pi / 180"

subsection \<open>The methods\<close>

text \<open>\<^verbatim>\<open>getAircraftState\<close>, lines 305--323.\<close>

definition getAircraftState :: "lnav_env \<Rightarrow> AircraftState" where
  "getAircraftState e =
     \<lparr>trueAirspeed = sim_AIRSPEED_TRUE e,
      groundSpeed = sim_GPS_GROUND_SPEED e,
      magVar = sim_MAGVAR e,
      position = \<lparr>lat = sim_GPS_POSITION_LAT e, long = sim_GPS_POSITION_LON e\<rparr>,
      windSpeed = sim_AMBIENT_WIND_VELOCITY e,
      windDirection = sim_AMBIENT_WIND_DIRECTION e,
      trueHeading = sim_PLANE_HEADING_DEGREES_TRUE e * RAD2DEG,
      magneticHeading = sim_PLANE_HEADING_DEGREES_MAGNETIC e * RAD2DEG,
      trueTrack = sim_GPS_GROUND_TRUE_TRACK e * RAD2DEG,
      bankAngle = sim_PLANE_BANK_DEGREES e * RAD2DEG\<rparr>"

text \<open>\<^verbatim>\<open>setCourse\<close>, lines 292--300.\<close>

definition setCourse ::
  "'h collaborators \<Rightarrow> real \<Rightarrow> AircraftState \<Rightarrow> 'h lnav_state \<Rightarrow> 'h lnav_state" where
  "setCourse g degreesTrue planeState s =
     (let currWindDirection = removeMagvar g (windDirection planeState) (magVar planeState);
          windCorrection =
            windCorrectionAngle g degreesTrue (trueAirspeed planeState) currWindDirection
              (windSpeed planeState);
          targetHeading = normalizeHeading g (degreesTrue - windCorrection);
          targetHeading = correctMagvar g targetHeading (magVar planeState)
      in s\<lparr>HEADING_BUG_SET := HEADING_BUG_SET s @ [(2, targetHeading)]\<rparr>)"

text \<open>\<^verbatim>\<open>trackLeg\<close>, lines 267--285.\<close>

definition trackLeg ::
  "'h collaborators \<Rightarrow> lnav_env \<Rightarrow> LatLongAlt \<Rightarrow> LatLongAlt \<Rightarrow> AircraftState \<Rightarrow> bool
     \<Rightarrow> 'h lnav_state \<Rightarrow> 'h lnav_state" where
  "trackLeg g e legStart legEnd planeState executeCourse s =
     (let dtk = desiredTrack g legStart legEnd (position planeState);
          xtk = crossTrack g legStart legEnd (position planeState);
          correctedDtk = correctMagvar g dtk (sim_MAGVAR e);
          s = s\<lparr>L_WT_CJ4_XTK := xtk, L_WT_CJ4_DTK := correctedDtk\<rparr>;
          interceptAngle = interceptAngle g xtk NavSensitivity_NORMAL;
          bearingToWaypoint = computeGreatCircleHeading g (position planeState) legEnd;
          deltaAngle = \<bar>angleDiff g dtk bearingToWaypoint\<bar>;
          headingToSet =
            (if deltaAngle < \<bar>interceptAngle\<bar> then normalizeHeading g (dtk + interceptAngle)
             else bearingToWaypoint)
      in if executeCourse then setCourse g headingToSet planeState s else s)"

text \<open>\<^verbatim>\<open>alertIfClose\<close>, lines 140--148.\<close>

definition alertIfClose :: "AircraftState \<Rightarrow> real \<Rightarrow> real \<Rightarrow> 'h lnav_state \<Rightarrow> 'h lnav_state" where
  "alertIfClose planeState distanceToActive sequenceDistance s =
     (let fiveSecondDistance = (groundSpeed planeState / 3600) * 5 in
      if distanceToActive < sequenceDistance + fiveSecondDistance
         \<and> state s \<noteq> IN_DISCONTINUITY \<and> sequencingMode s \<noteq> INHIBIT
      then s\<lparr>L_WT_CJ4_WPT_ALERT := 1\<rparr>
      else s\<lparr>L_WT_CJ4_WPT_ALERT := 0\<rparr>)"

text \<open>\<^verbatim>\<open>delegateToHoldsDirector\<close>, lines 155--163: the answer and the state after it.\<close>

definition delegateToHoldsDirector ::
  "'h collaborators \<Rightarrow> WayPoint option \<Rightarrow> 'h lnav_state \<Rightarrow> bool \<times> 'h lnav_state" where
  "delegateToHoldsDirector g activeWaypoint s =
     (case activeWaypoint of
        None \<Rightarrow> (False, s)
      | Some w \<Rightarrow>
          if hasHold w
             \<and> \<not> isHoldExited g (holdsDirector s) (activeWaypointIndex (fpm_flightPlan s) - 1) then
            (let s = s\<lparr>holdsDirector :=
                         holds_update g (holdsDirector s) (activeWaypointIndex (fpm_flightPlan s))\<rparr>
             in (holds_state g (holdsDirector s) \<noteq> NONE \<and> holds_state g (holdsDirector s) \<noteq> EXITED, s))
          else (False, s))"

text \<open>
  \<^verbatim>\<open>getAnticipationDistance\<close>, lines 171--179. The division is by the bank rate of
  the options, which is 10 in the options the source constructs.
\<close>

definition getAnticipationDistance ::
  "'h collaborators \<Rightarrow> LNavDirectorOptions \<Rightarrow> AircraftState \<Rightarrow> real \<Rightarrow> real" where
  "getAnticipationDistance g opts planeState turnAngle =
     (let turnRadius = turnRadius g (groundSpeed planeState) (maxBankAngle opts);
          bankDiff = (sgn turnAngle * maxBankAngle opts) - bankAngle planeState;
          enterBankDistance = (\<bar>bankDiff\<bar> / bankRate opts) * (groundSpeed planeState / 3600);
          turnAnticipationAngle = \<bar>min (maxTurnAnticipationAngle opts) turnAngle\<bar> * DEG2RAD
      in min ((turnRadius * tan turnAnticipationAngle / 2) + enterBankDistance)
           (maxTurnAnticipationDistance opts planeState))"

text \<open>
  \<^verbatim>\<open>handleFlightPlanChanged\<close>, lines 185--204. Line 190 is the comparison
  \<^verbatim>\<open>this.state === LNavState.TRACKING\<close>, whose value is dropped: it has no effect.
\<close>

definition handleFlightPlanChanged :: "real \<Rightarrow> 'h lnav_state \<Rightarrow> 'h lnav_state" where
  "handleFlightPlanChanged version s =
     (let s = s\<lparr>activeFlightPlan := Some FlightPlan_0\<rparr>;
          activeWaypoint = getWaypoint (fpm_flightPlan s) (activeWaypointIndex (fpm_flightPlan s));
          s = (if sequencingMode s = INHIBIT then s\<lparr>sequencingMode := AUTO\<rparr> else s);
          s = (if state s = IN_DISCONTINUITY
                  \<and> \<not> (case activeWaypoint of None \<Rightarrow> False | Some w \<Rightarrow> endsInDiscontinuity w)
               then s\<lparr>L_WT_CJ4_IN_DISCONTINUITY := 0, state := TRACKING\<rparr> else s)
      in s\<lparr>L_WT_CJ4_WPT_ALERT := 0, currentFlightPlanVersion := version\<rparr>)"

text \<open>
  \<^verbatim>\<open>sequenceToNextWaypoint\<close>, lines 211--233. Past the guard it reads the active
  index through the director's plan reference, which throws when the reference is not set.
  The next waypoint is asked of the flight plan manager, which looks it up in the same plan.
\<close>

definition sequenceToNextWaypoint ::
  "'h collaborators \<Rightarrow> lnav_env \<Rightarrow> AircraftState \<Rightarrow> WayPoint option \<Rightarrow> 'h lnav_state
     \<Rightarrow> js_error + 'h lnav_state" where
  "sequenceToNextWaypoint g e planeState currentWaypoint s =
     (if sequencingMode s \<noteq> INHIBIT \<and> groundSpeed planeState > 25 then
        (case activeFlightPlan s of
           None \<Rightarrow> Inl TypeError
         | Some r \<Rightarrow>
             (let nextWaypoint =
                    getWaypoint (fpm_flightPlan s) (activeWaypointIndex (fpm_flightPlan s) + 1)
              in if (case currentWaypoint of None \<Rightarrow> False | Some w \<Rightarrow> endsInDiscontinuity w) then
                   (let s = s\<lparr>state := IN_DISCONTINUITY, L_WT_CJ4_IN_DISCONTINUITY := 1\<rparr>;
                        s = s\<lparr>sequencingMode := INHIBIT\<rparr>
                    in Inr (setCourse g (sim_PLANE_HEADING_DEGREES_TRUE e * RAD2DEG) planeState s))
                 else if (case nextWaypoint of None \<Rightarrow> False | Some w \<Rightarrow> isRunway w) then
                   (let s = s\<lparr>sequencingMode := INHIBIT\<rparr>;
                        s = s\<lparr>state := TURN_COMPLETING\<rparr>
                    in Inr (setActiveWaypointIndex (activeWaypointIndex (fpm_flightPlan s) + 1) s))
                 else
                   (let s = s\<lparr>state := TURN_COMPLETING\<rparr>
                    in Inr (setActiveWaypointIndex (activeWaypointIndex (fpm_flightPlan s) + 1) s))))
      else Inr s)"

text \<open>
  \<^verbatim>\<open>handleTracking\<close>, lines 68--100. The active waypoint is one the caller has found;
  the previous waypoint is whatever the caller got for the index before it. Reading
  \<^verbatim>\<open>infos\<close> of a waypoint that is \<^verbatim>\<open>undefined\<close> throws.
\<close>

definition handleTracking ::
  "'h collaborators \<Rightarrow> lnav_env \<Rightarrow> WayPoint \<Rightarrow> WayPoint option \<Rightarrow> 'h lnav_state
     \<Rightarrow> js_error + 'h lnav_state" where
  "handleTracking g e activeWaypoint previousWaypoint s =
     (let activeLatLon = coordinates activeWaypoint in
      case activeFlightPlan s of
        None \<Rightarrow> Inl TypeError
      | Some r \<Rightarrow>
     (case getWaypoint (fpm_flightPlan s) (activeWaypointIndex (fpm_flightPlan s) + 1) of
        None \<Rightarrow> Inl TypeError
      | Some nextWaypoint \<Rightarrow>
     (let nextLatLon = coordinates nextWaypoint;
          planeState = getAircraftState e;
          planeLatLon = position planeState
      in case previousWaypoint of
           None \<Rightarrow> Inl TypeError
         | Some previousWaypoint \<Rightarrow>
     (let dtk = desiredTrack g (coordinates previousWaypoint) (coordinates activeWaypoint)
                  (position planeState);
          distanceToActive = distanceTo g planeLatLon activeLatLon / 1852;
          s = alertIfClose planeState distanceToActive 0 s
      in if isAbeam g dtk (position planeState) (coordinates activeWaypoint) then
           sequenceToNextWaypoint g e planeState (Some activeWaypoint) s
         else
           (let nextStartTrack = initialBearingTo g activeLatLon nextLatLon;
                planeToActiveBearing = initialBearingTo g planeLatLon activeLatLon;
                anticipationDistance =
                  getAnticipationDistance g (options s) planeState
                    (angleDiff g planeToActiveBearing nextStartTrack);
                r = (if \<not> isFlyover nextWaypoint then
                       (let s = alertIfClose planeState distanceToActive anticipationDistance s in
                        if distanceToActive < anticipationDistance \<and> \<not> isFlyover nextWaypoint
                        then sequenceToNextWaypoint g e planeState (Some activeWaypoint) s
                        else Inr s)
                     else Inr s)
            in case r of
                 Inl err \<Rightarrow> Inl err
               | Inr s \<Rightarrow>
                   Inr (trackLeg g e (coordinates previousWaypoint) (coordinates activeWaypoint)
                          planeState (distanceToActive > minimumTrackingDistance (options s)) s))))))"

text \<open>\<^verbatim>\<open>handleTurnCompleting\<close>, lines 107--122.\<close>

definition handleTurnCompleting ::
  "'h collaborators \<Rightarrow> lnav_env \<Rightarrow> WayPoint \<Rightarrow> WayPoint option \<Rightarrow> 'h lnav_state
     \<Rightarrow> js_error + 'h lnav_state" where
  "handleTurnCompleting g e activeWaypoint previousWaypoint s =
     (let planeState = getAircraftState e in
      case previousWaypoint of
        None \<Rightarrow> Inl TypeError
      | Some previousWaypoint \<Rightarrow>
          (let dtk = desiredTrack g (coordinates previousWaypoint) (coordinates activeWaypoint)
                       (position planeState);
               angleDiffToTarget = angleDiff g (trueHeading planeState) dtk
           in if angleDiffToTarget < degreesRollout (options s) then Inr (s\<lparr>state := TRACKING\<rparr>)
              else
                (let turnDirection = sgn angleDiffToTarget;
                     targetHeading = normalizeHeading g (trueHeading planeState + (turnDirection * 90));
                     s = trackLeg g e (coordinates previousWaypoint) (coordinates activeWaypoint)
                           planeState False s
                 in Inr (setCourse g targetHeading planeState s))))"

text \<open>\<^verbatim>\<open>update\<close> of the lateral director, lines 40--61.\<close>

definition LNavDirector_update ::
  "'h collaborators \<Rightarrow> lnav_env \<Rightarrow> 'h lnav_state \<Rightarrow> js_error + 'h lnav_state" where
  "LNavDirector_update g e s =
     (let version = sim_FlightPlan_Version e;
          s = (if currentFlightPlanVersion s \<noteq> version
               then handleFlightPlanChanged version s else s)
      in case activeFlightPlan s of
           None \<Rightarrow> Inr s
         | Some r \<Rightarrow>
             (let previousWaypoint =
                    getWaypoint (fpm_flightPlan s) (activeWaypointIndex (fpm_flightPlan s) - 1);
                  activeWaypoint =
                    getWaypoint (fpm_flightPlan s) (activeWaypointIndex (fpm_flightPlan s))
              in case delegateToHoldsDirector g activeWaypoint s of
                   (delegated, s) \<Rightarrow>
                     (case activeWaypoint of
                        None \<Rightarrow> Inr s
                      | Some activeWaypoint \<Rightarrow>
                          if \<not> delegated then
                            (case state s of
                               TRACKING \<Rightarrow> handleTracking g e activeWaypoint previousWaypoint s
                             | TURN_COMPLETING \<Rightarrow>
                                 handleTurnCompleting g e activeWaypoint previousWaypoint s
                             | IN_DISCONTINUITY \<Rightarrow> Inr s)
                          else Inr s)))"



section \<open>Concrete inputs\<close>

text \<open>
  A freshly constructed vertical director in a quiet world: nothing queued, nothing
  commanded, every local variable zero.
\<close>

definition quietWorld :: vnav_state where
  "quietWorld =
     \<lparr>vnavTargetAltitude = None,
      inhibitExecute = False,
      constraintExists = False,
      pathArm = False,
      pathArmAbove = False,
      pathArmFired = False,
      pathFromAboveRequiredVs = None,
      pathActive = False,
      pathActivate = False,
      obeyingConstraint = False,
      vnavAltSlot = None,
      indicatedAltitude = None,
      vnav_newPath = False,
      currentVerticalArmedStates_0 = None,
      queuedEvents = [],
      L_WT_VNAV_PATH_STATUS = 0,
      L_WT_CJ4_SNOWFLAKE = 0,
      L_WT_CJ4_DONUT = Number 0,
      L_AP_CURRENT_TARGET_ALTITUDE_IS_CONSTRAINT = 0,
      L_WT_VNAV_TOD_FMC_ALERT = 0,
      L_WT_TEMP_ACTIVE_FPA = 0,
      L_WT_VNAV_constraintExists = 0,
      L_WT_VNAV_pathArm = 0,
      L_WT_VNAV_pathActive = 0,
      L_WT_VNAV_inhibitExecute = 0,
      L_WT_VNAV_obeyingConstraint = 0,
      K_events = [],
      coherent_calls = []\<rparr>"

text \<open>
  A descent towards a restriction at 8000 ft: the aircraft is at 10000 ft in pitch mode,
  500 ft off the path and 10 NM short of the top of descent, with 9900 ft selected, on a
  level flight-path angle at 200 kt.
\<close>

definition descentEnv :: vnav_env where
  "descentEnv =
     \<lparr>currentVerticalActiveState = PTCH,
      currentLateralActiveState = OtherLateralMode,
      selectedAlt1 = 9900,
      selectedAlt2 = 8000,
      currentAltSlotIndex = 1,
      vnav_vnavCalculating = True,
      vnav_vnavConstraintType = True,
      vnav_pathCalculating = True,
      vnav_vnavTargetAltitude = 8000,
      vnav_vnavTargetDistance = 30,
      vnav_topOfDescent = 20,
      vnav_distanceToTod = 10,
      vnav_altDeviation = 500,
      vnav_gpExists = False,
      vnav_gpAngle = 0,
      vnav_desiredFPA = 0,
      vnav_vnavConstraintWaypoint = None,
      vnav_vnavConstraintAltitude = 8000,
      vnav_activeWaypointDist = 0,
      vnav_activeWaypoint_cumulativeDistanceInFP = 0,
      vnav_currentFlightSegment_type = OtherSegment,
      vnav_altitude = 10000,
      sv_INDICATED_ALTITUDE = 10000,
      sv_AUTOPILOT_ALTITUDE_LOCK_VAR_1 = 9900,
      sv_AUTOPILOT_ALTITUDE_LOCK_VAR_3 = 12000,
      sv_GPS_GROUND_SPEED = 200,
      sv_AUTOPILOT_VERTICAL_HOLD_VAR_2 = 0,
      sv_AUTOPILOT_VERTICAL_HOLD = 0,
      Simplane_getVerticalSpeed = 0\<rparr>"


text \<open>The same descent with the selected altitude exactly 75 ft below the aircraft.\<close>

definition boundaryEnv :: vnav_env where
  "boundaryEnv = descentEnv\<lparr>selectedAlt1 := 9925\<rparr>"

text \<open>
  The descent one cycle on, the path now active on the restriction at 8000 ft, when the
  trajectory engine signals a new path.
\<close>

definition onPath :: vnav_state where
  "onPath = (update descentEnv quietWorld)\<lparr>vnav_newPath := True\<rparr>"

text \<open>The new path aims at 6000 ft, and the aircraft is 200 ft off it on the negative side.\<close>

definition newPathEnv :: vnav_env where
  "newPathEnv = descentEnv\<lparr>vnav_vnavTargetAltitude := 6000, vnav_altDeviation := - 200\<rparr>"

text \<open>The same with a new path that aims only 50 ft lower, at 7950 ft.\<close>

definition smallStepEnv :: vnav_env where
  "smallStepEnv = descentEnv\<lparr>vnav_vnavTargetAltitude := 7950, vnav_altDeviation := - 200\<rparr>"

text \<open>The descent with the aircraft 100 ft off the path on the negative side.\<close>

definition belowPathEnv :: vnav_env where
  "belowPathEnv = descentEnv\<lparr>vnav_altDeviation := - 100\<rparr>"

text \<open>
  For the lateral director: a leg whose desired track is \<open>dtk\<close> degrees, flown with no
  wind correction; headings are folded into 0 to 360 degrees and angle differences into
  \<open>-180\<close> to 180; the magnetic variation is subtracted from a true heading and added to
  a magnetic one. There is no holds director.
\<close>

definition exampleCollaborators :: "real \<Rightarrow> unit collaborators" where
  "exampleCollaborators dtk =
     \<lparr>desiredTrack = (\<lambda>legStart legEnd pos. dtk),
      crossTrack = (\<lambda>legStart legEnd pos. 0),
      isAbeam = (\<lambda>track pos fix. False),
      interceptAngle = (\<lambda>xtk sensitivity. 0),
      normalizeHeading = (\<lambda>h. if h < 0 then h + 360 else if 360 \<le> h then h - 360 else h),
      windCorrectionAngle = (\<lambda>course tas windDir windSpd. 0),
      turnRadius = (\<lambda>speed bank. 0),
      correctMagvar = (\<lambda>h v. h - v),
      removeMagvar = (\<lambda>h v. h + v),
      angleDiff = (\<lambda>a b. if 180 < b - a then b - a - 360 else if b - a \<le> - 180 then b - a + 360 else b - a),
      computeGreatCircleHeading = (\<lambda>a b. dtk),
      distanceTo = (\<lambda>a b. 18520),
      initialBearingTo = (\<lambda>a b. dtk),
      isHoldExited = (\<lambda>h i. True),
      holds_update = (\<lambda>h i. h),
      holds_state = (\<lambda>h. NONE)\<rparr>"

text \<open>An aircraft heading north at 250 kt in still air, with no magnetic variation.\<close>

definition northbound :: lnav_env where
  "northbound =
     \<lparr>sim_FlightPlan_Version = 1,
      sim_GPS_POSITION_LAT = 0,
      sim_GPS_POSITION_LON = 0,
      sim_MAGVAR = 0,
      sim_GPS_GROUND_SPEED = 250,
      sim_AIRSPEED_TRUE = 250,
      sim_AMBIENT_WIND_DIRECTION = 0,
      sim_AMBIENT_WIND_VELOCITY = 0,
      sim_PLANE_HEADING_DEGREES_TRUE = 0,
      sim_PLANE_HEADING_DEGREES_MAGNETIC = 0,
      sim_GPS_GROUND_TRUE_TRACK = 0,
      sim_PLANE_BANK_DEGREES = 0\<rparr>"

text \<open>The same aircraft heading east, true, where the magnetic variation is 10 degrees.\<close>

definition eastbound :: lnav_env where
  "eastbound = northbound\<lparr>sim_PLANE_HEADING_DEGREES_TRUE := pi / 2, sim_MAGVAR := 10\<rparr>"

definition waypointAt :: "real \<Rightarrow> real \<Rightarrow> WayPoint" where
  "waypointAt la lo =
     \<lparr>coordinates = \<lparr>lat = la, long = lo\<rparr>,
      isFlyover = False,
      isRunway = False,
      endsInDiscontinuity = False,
      hasHold = False\<rparr>"

text \<open>
  A lateral director that holds version 1 of a plan with the given waypoints and active
  index, in the given state, sequencing automatically.
\<close>

definition directorOn :: "WayPoint list \<Rightarrow> int \<Rightarrow> LNavState \<Rightarrow> unit lnav_state" where
  "directorOn wps i st =
     \<lparr>currentFlightPlanVersion = 1,
      activeFlightPlan = Some FlightPlan_0,
      options = LNavDirectorOptions_constructor,
      sequencingMode = AUTO,
      state = st,
      holdsDirector = (),
      fpm_flightPlan = \<lparr>waypoints = wps, activeWaypointIndex = i\<rparr>,
      L_WT_CJ4_WPT_ALERT = 0,
      L_WT_CJ4_IN_DISCONTINUITY = 0,
      L_WT_CJ4_XTK = 0,
      L_WT_CJ4_DTK = 0,
      HEADING_BUG_SET = []\<rparr>"



text \<open>Three waypoints in a row, the last one a runway.\<close>

definition toRunway :: "WayPoint list" where
  "toRunway = [waypointAt 0 0, waypointAt 1 0, (waypointAt 2 0)\<lparr>isRunway := True\<rparr>]"

section \<open>What each step leaves alone\<close>

lemma setTargetAltitude_frame [simp]:
  "pathArm (setTargetAltitude e t s) = pathArm s"
  "pathArmAbove (setTargetAltitude e t s) = pathArmAbove s"
  "pathActive (setTargetAltitude e t s) = pathActive s"
  "pathActivate (setTargetAltitude e t s) = pathActivate s"
  "inhibitExecute (setTargetAltitude e t s) = inhibitExecute s"
  "constraintExists (setTargetAltitude e t s) = constraintExists s"
  "vnav_newPath (setTargetAltitude e t s) = vnav_newPath s"
  "currentVerticalArmedStates_0 (setTargetAltitude e t s) = currentVerticalArmedStates_0 s"
  "queuedEvents (setTargetAltitude e t s) = queuedEvents s"
  "vnavAltSlot (setTargetAltitude e t s) = vnavAltSlot s"
  "vnavTargetAltitude (setTargetAltitude e t s) = vnavTargetAltitude s"
  "K_events (setTargetAltitude e t s) = K_events s"
  by (simp_all add: setTargetAltitude_def Let_def)

lemma vnavAltSlotRequest_frame [simp]:
  "pathArm (vnavAltSlotRequest e s) = pathArm s"
  "pathArmAbove (vnavAltSlotRequest e s) = pathArmAbove s"
  "pathActive (vnavAltSlotRequest e s) = pathActive s"
  "pathActivate (vnavAltSlotRequest e s) = pathActivate s"
  "inhibitExecute (vnavAltSlotRequest e s) = inhibitExecute s"
  "constraintExists (vnavAltSlotRequest e s) = constraintExists s"
  "vnav_newPath (vnavAltSlotRequest e s) = vnav_newPath s"
  "currentVerticalArmedStates_0 (vnavAltSlotRequest e s) = currentVerticalArmedStates_0 s"
  "vnavAltSlot (vnavAltSlotRequest e s) = vnavAltSlot s"
  "vnavTargetAltitude (vnavAltSlotRequest e s) = vnavTargetAltitude s"
  "K_events (vnavAltSlotRequest e s) = K_events s"
  "coherent_calls (vnavAltSlotRequest e s) = coherent_calls s"
  by (simp_all add: vnavAltSlotRequest_def Let_def)

lemma recalculate_frame [simp]:
  "pathArm (recalculate e s) = False"
  "pathArmAbove (recalculate e s) = False"
  "pathActive (recalculate e s) = False"
  "pathActivate (recalculate e s) = False"
  "inhibitExecute (recalculate e s) = inhibitExecute s"
  "constraintExists (recalculate e s) = constraintExists s"
  "vnav_newPath (recalculate e s) = vnav_newPath s"
  "currentVerticalArmedStates_0 (recalculate e s) = currentVerticalArmedStates_0 s"
  "vnavAltSlot (recalculate e s) = vnavAltSlot s"
  "vnavTargetAltitude (recalculate e s) = vnavTargetAltitude s"
  "K_events (recalculate e s) = K_events s"
  "coherent_calls (recalculate e s) = coherent_calls s"
  by (simp_all add: recalculate_def)

lemma deactivate_frame [simp]:
  "pathArm (deactivate s) = False"
  "pathArmAbove (deactivate s) = False"
  "pathActive (deactivate s) = False"
  "pathActivate (deactivate s) = False"
  "inhibitExecute (deactivate s) = inhibitExecute s"
  "constraintExists (deactivate s) = False"
  "vnav_newPath (deactivate s) = vnav_newPath s"
  "currentVerticalArmedStates_0 (deactivate s) = currentVerticalArmedStates_0 s"
  "queuedEvents (deactivate s) = queuedEvents s"
  "vnavAltSlot (deactivate s) = vnavAltSlot s"
  "K_events (deactivate s) = K_events s"
  "coherent_calls (deactivate s) = coherent_calls s"
  by (simp_all add: deactivate_def)

lemma preamble_frame [simp]:
  "pathArm (monitorValues (setDonut e (setSnowflake e (checkPreselector e s)))) = pathArm s"
  "pathArmAbove (monitorValues (setDonut e (setSnowflake e (checkPreselector e s)))) = pathArmAbove s"
  "pathActive (monitorValues (setDonut e (setSnowflake e (checkPreselector e s)))) = pathActive s"
  "pathActivate (monitorValues (setDonut e (setSnowflake e (checkPreselector e s)))) = pathActivate s"
  "inhibitExecute (monitorValues (setDonut e (setSnowflake e (checkPreselector e s)))) = inhibitExecute s"
  "constraintExists (monitorValues (setDonut e (setSnowflake e (checkPreselector e s)))) = constraintExists s"
  "vnav_newPath (monitorValues (setDonut e (setSnowflake e (checkPreselector e s)))) = vnav_newPath s"
  "currentVerticalArmedStates_0 (monitorValues (setDonut e (setSnowflake e (checkPreselector e s)))) = currentVerticalArmedStates_0 s"
  "queuedEvents (monitorValues (setDonut e (setSnowflake e (checkPreselector e s)))) = queuedEvents s"
  "vnavAltSlot (monitorValues (setDonut e (setSnowflake e (checkPreselector e s)))) = vnavAltSlot s"
  "vnavTargetAltitude (monitorValues (setDonut e (setSnowflake e (checkPreselector e s)))) = vnavTargetAltitude s"
  "K_events (monitorValues (setDonut e (setSnowflake e (checkPreselector e s)))) = K_events s"
  "coherent_calls (monitorValues (setDonut e (setSnowflake e (checkPreselector e s)))) = coherent_calls s"
  by (simp_all add: monitorValues_def setDonut_def setSnowflake_def checkPreselector_def Let_def
        split: option.split)

lemma execute_activate_frame [simp]:
  "pathArm (execute_activate e p s) = pathArm s"
  "pathArmAbove (execute_activate e p s) = pathArmAbove s"
  "pathActive (execute_activate e p s) = (pathActive s \<or> pathActivate s)"
  "pathActivate (execute_activate e p s) = False"
  "inhibitExecute (execute_activate e p s) = inhibitExecute s"
  "constraintExists (execute_activate e p s) = constraintExists s"
  "vnav_newPath (execute_activate e p s) = vnav_newPath s"
  "currentVerticalArmedStates_0 (execute_activate e p s) = currentVerticalArmedStates_0 s"
  "queuedEvents (execute_activate e p s) = queuedEvents s"
  "vnavAltSlot (execute_activate e p s) = vnavAltSlot s"
  "vnavTargetAltitude (execute_activate e p s) = vnavTargetAltitude s"
  "K_events (execute_activate e p s) = K_events s"
  by (simp_all add: execute_activate_def Let_def)

lemma execute_status_frame [simp]:
  "pathArm (execute_status e p s) = pathArm s"
  "pathArmAbove (execute_status e p s) = pathArmAbove s"
  "pathActive (execute_status e p s) = pathActive s"
  "pathActivate (execute_status e p s) = (pathActivate s \<and> (pathActive s \<or> pathArm s \<or> pathArmAbove s))"
  "inhibitExecute (execute_status e p s) = inhibitExecute s"
  "constraintExists (execute_status e p s) = constraintExists s"
  "vnav_newPath (execute_status e p s) = vnav_newPath s"
  "currentVerticalArmedStates_0 (execute_status e p s) = currentVerticalArmedStates_0 s"
  "vnavTargetAltitude (execute_status e p s) = vnavTargetAltitude s"
  "K_events (execute_status e p s) = K_events s"
  by (auto simp add: execute_status_def Let_def)

lemma execute_constraint_frame [simp]:
  "pathArm (execute_constraint e s) = pathArm s"
  "pathArmAbove (execute_constraint e s) = pathArmAbove s"
  "pathActive (execute_constraint e s) = pathActive s"
  "pathActivate (execute_constraint e s) = pathActivate s"
  "inhibitExecute (execute_constraint e s) = inhibitExecute s"
  "constraintExists (execute_constraint e s) = constraintExists s"
  "vnav_newPath (execute_constraint e s) = vnav_newPath s"
  "currentVerticalArmedStates_0 (execute_constraint e s) = currentVerticalArmedStates_0 s"
  "queuedEvents (execute_constraint e s) = queuedEvents s"
  "vnavTargetAltitude (execute_constraint e s) = vnavTargetAltitude s"
  "K_events (execute_constraint e s) = K_events s"
  by (simp_all add: execute_constraint_def Let_def)

lemma execute_path_frame [simp]:
  "pathArm (execute_path e s) = pathArm s"
  "pathArmAbove (execute_path e s) = pathArmAbove s"
  "pathActive (execute_path e s) = pathActive s"
  "pathActivate (execute_path e s) = pathActivate s"
  "inhibitExecute (execute_path e s) = inhibitExecute s"
  "constraintExists (execute_path e s) = constraintExists s"
  "vnav_newPath (execute_path e s) = vnav_newPath s"
  "currentVerticalArmedStates_0 (execute_path e s) = currentVerticalArmedStates_0 s"
  "queuedEvents (execute_path e s) = queuedEvents s"
  "vnavAltSlot (execute_path e s) = vnavAltSlot s"
  "vnavTargetAltitude (execute_path e s) = vnavTargetAltitude s"
  by (simp_all add: execute_path_def Let_def)

lemma execute_commands_frame [simp]:
  "pathArm (execute_commands e s) = pathArm s"
  "pathArmAbove (execute_commands e s) = pathArmAbove s"
  "pathActive (execute_commands e s) = pathActive s"
  "pathActivate (execute_commands e s) = pathActivate s"
  "inhibitExecute (execute_commands e s) = inhibitExecute s"
  "constraintExists (execute_commands e s) = constraintExists s"
  "vnav_newPath (execute_commands e s) = vnav_newPath s"
  "currentVerticalArmedStates_0 (execute_commands e s) = currentVerticalArmedStates_0 s"
  "queuedEvents (execute_commands e s) = queuedEvents s"
  "vnavTargetAltitude (execute_commands e s) = vnavTargetAltitude s"
  by (simp_all add: execute_commands_def Let_def split: option.split)

lemma execute_frame [simp]:
  "pathArm (execute e s) = pathArm s"
  "pathArmAbove (execute e s) = pathArmAbove s"
  "inhibitExecute (execute e s) = inhibitExecute s"
  "constraintExists (execute e s) = constraintExists s"
  "vnav_newPath (execute e s) = vnav_newPath s"
  "currentVerticalArmedStates_0 (execute e s) = currentVerticalArmedStates_0 s"
  "vnavTargetAltitude (execute e s) = vnavTargetAltitude s"
  by (simp_all add: execute_def Let_def)

lemma execute_active:
  "pathActive (execute e s) = (if inhibitExecute s then pathActive s else pathActive s \<or> pathActivate s)"
  "pathActivate (execute e s) = (if inhibitExecute s then pathActivate s else False)"
  by (auto simp add: execute_def Let_def)


lemma interceptingConstraint_frame [simp]:
  "pathArm (interceptingConstraint e s) = pathArm s"
  "pathArmAbove (interceptingConstraint e s) = pathArmAbove s"
  "pathActive (interceptingConstraint e s) = pathActive s"
  "pathActivate (interceptingConstraint e s) = pathActivate s"
  "constraintExists (interceptingConstraint e s) = constraintExists s"
  "vnav_newPath (interceptingConstraint e s) = vnav_newPath s"
  "queuedEvents (interceptingConstraint e s) = queuedEvents s"
  "vnavAltSlot (interceptingConstraint e s) = vnavAltSlot s"
  "vnavTargetAltitude (interceptingConstraint e s) = vnavTargetAltitude s"
  "K_events (interceptingConstraint e s) = K_events s"
  "coherent_calls (interceptingConstraint e s) = coherent_calls s"
  by (simp_all add: interceptingConstraint_def Let_def)

lemma constraintData_frame [simp]:
  "pathArm (constraintData e s) = pathArm s"
  "pathArmAbove (constraintData e s) = pathArmAbove s"
  "pathActive (constraintData e s) = pathActive s"
  "pathActivate (constraintData e s) = pathActivate s"
  "inhibitExecute (constraintData e s) = inhibitExecute s"
  "constraintExists (constraintData e s) = vnav_vnavConstraintType e"
  "vnav_newPath (constraintData e s) = vnav_newPath s"
  "currentVerticalArmedStates_0 (constraintData e s) = currentVerticalArmedStates_0 s"
  "indicatedAltitude (constraintData e s) = indicatedAltitude s"
  "vnavTargetAltitude (constraintData e s) = vnavTargetAltitude s"
  "K_events (constraintData e s) = K_events s"
  "coherent_calls (constraintData e s) = coherent_calls s"
  by (simp_all add: constraintData_def cancelConstraint_def Let_def)

lemma canPathArm_frame [simp]:
  "pathActive (canPathArm e s) = pathActive s"
  "pathActivate (canPathArm e s) = pathActivate s"
  "inhibitExecute (canPathArm e s) = inhibitExecute s"
  "constraintExists (canPathArm e s) = constraintExists s"
  "vnav_newPath (canPathArm e s) = vnav_newPath s"
  "currentVerticalArmedStates_0 (canPathArm e s) = currentVerticalArmedStates_0 s"
  "queuedEvents (canPathArm e s) = queuedEvents s"
  "vnavAltSlot (canPathArm e s) = vnavAltSlot s"
  "vnavTargetAltitude (canPathArm e s) = vnavTargetAltitude s"
  "indicatedAltitude (canPathArm e s) = indicatedAltitude s"
  "K_events (canPathArm e s) = K_events s"
  "coherent_calls (canPathArm e s) = coherent_calls s"
  by (simp_all add: canPathArm_def Let_def)

lemma canPathExecute_frame [simp]:
  "pathArm (canPathExecute e s) = pathArm s"
  "pathArmAbove (canPathExecute e s) = pathArmAbove s"
  "pathActive (canPathExecute e s) = pathActive s"
  "inhibitExecute (canPathExecute e s) = inhibitExecute s"
  "constraintExists (canPathExecute e s) = constraintExists s"
  "vnav_newPath (canPathExecute e s) = vnav_newPath s"
  "currentVerticalArmedStates_0 (canPathExecute e s) = currentVerticalArmedStates_0 s"
  "queuedEvents (canPathExecute e s) = queuedEvents s"
  "vnavAltSlot (canPathExecute e s) = vnavAltSlot s"
  "K_events (canPathExecute e s) = K_events s"
  "coherent_calls (canPathExecute e s) = coherent_calls s"
  by (simp_all add: canPathExecute_def Let_def)

lemma canPathArm_exclusive: "\<not> (pathArm s \<and> pathArmAbove s) \<Longrightarrow> \<not> (pathArm (canPathArm e s) \<and> pathArmAbove (canPathArm e s))"
  by (simp add: canPathArm_def Let_def)

lemma isThereANewPath_exclusive:
  "\<not> (pathArm s \<and> pathArmAbove s) \<Longrightarrow>
   (case isThereANewPath e s of Returned t \<Rightarrow> \<not> (pathArm t \<and> pathArmAbove t)
    | Continues t \<Rightarrow> \<not> (pathArm t \<and> pathArmAbove t))"
  by (simp add: isThereANewPath_def)

lemma isPathActive_exclusive:
  "\<not> (pathArm s \<and> pathArmAbove s) \<Longrightarrow>
   (case isPathActive e s of Returned t \<Rightarrow> \<not> (pathArm t \<and> pathArmAbove t)
    | Continues t \<Rightarrow> \<not> (pathArm t \<and> pathArmAbove t))"
  by (simp add: isPathActive_def Let_def)

lemma pathData_exclusive:
  assumes "\<not> (pathArm s \<and> pathArmAbove s)"
  shows "case pathData e s of Returned t \<Rightarrow> \<not> (pathArm t \<and> pathArmAbove t)
    | Continues t \<Rightarrow> \<not> (pathArm t \<and> pathArmAbove t)"
proof (cases "isThereANewPath e s")
  case (Returned t)
  with isThereANewPath_exclusive [OF assms, of e] show ?thesis
    by (simp add: pathData_def)
next
  case (Continues t)
  with isThereANewPath_exclusive [OF assms, of e] have "\<not> (pathArm t \<and> pathArmAbove t)"
    by simp
  then have "\<not> (pathArm (canPathExecute e (canPathArm e t)) \<and> pathArmAbove (canPathExecute e (canPathArm e t)))"
    using canPathArm_exclusive [of t e] by simp
  from isPathActive_exclusive [OF this, of e] Continues show ?thesis
    by (simp add: pathData_def)
qed

lemma update_exclusive:
  assumes "\<not> (pathArm s \<and> pathArmAbove s)"
  shows "\<not> (pathArm (update e s) \<and> pathArmAbove (update e s))"
proof -
  let ?p = "constraintData e ((interceptingConstraint e s)\<lparr>indicatedAltitude := Some (sv_INDICATED_ALTITUDE e)\<rparr>)"
  from assms have "\<not> (pathArm ?p \<and> pathArmAbove ?p)" by simp
  from pathData_exclusive [OF this, of e] assms show ?thesis
    by (auto simp add: update_def Let_def split: control.splits)
qed

section \<open>The new-path check and the example descent\<close>

lemma update_descent:
  "pathActive (update descentEnv quietWorld)"
  "pathArm (update descentEnv quietWorld)"
  "\<not> pathArmAbove (update descentEnv quietWorld)"
  "vnavAltSlot (update descentEnv quietWorld) = Some 2"
  "vnavTargetAltitude (update descentEnv quietWorld) = Some 8000"
  "queuedEvents (update descentEnv quietWorld) = [VNAV_REQUEST_SLOT_2]"
  "inhibitExecute (update descentEnv quietWorld) = False"
  by (simp_all add: update_def interceptingConstraint_def constraintData_def pathData_def isThereANewPath_def
  canPathArm_def canPathExecute_def isPathActive_def execute_def execute_activate_def execute_status_def
  execute_commands_def execute_constraint_def execute_path_def checkPreselector_def setSnowflake_def
  setDonut_def monitorValues_def setTargetAltitude_def recalculate_def vnavAltSlotRequest_def
  deactivate_def cancelConstraint_def js_cmp_def js_lt_num_def truthy_def descentEnv_def quietWorld_def Let_def)

lemma update_unfold:
  "update e s =
     (if vnav_vnavCalculating e then
        (if vnav_pathCalculating e then
           (case pathData e (cycleInputs e s) of
              Returned t \<Rightarrow> t
            | Continues t \<Rightarrow> vnavAltSlotRequest e (execute e t))
         else if vnav_vnavConstraintType e then vnavAltSlotRequest e (execute e (cycleInputs e s))
         else recalculate e (cycleInputs e s))
      else vnavAltSlotRequest e (deactivate (interceptingConstraint e s)))"
  by (simp add: update_def cycleInputs_def Let_def)

lemma cycleInputs_frame [simp]:
  "pathArm (cycleInputs e s) = pathArm s"
  "pathArmAbove (cycleInputs e s) = pathArmAbove s"
  "pathActive (cycleInputs e s) = pathActive s"
  "pathActivate (cycleInputs e s) = pathActivate s"
  "constraintExists (cycleInputs e s) = vnav_vnavConstraintType e"
  "vnav_newPath (cycleInputs e s) = vnav_newPath s"
  "indicatedAltitude (cycleInputs e s) = Some (sv_INDICATED_ALTITUDE e)"
  "vnavTargetAltitude (cycleInputs e s) = vnavTargetAltitude s"
  "K_events (cycleInputs e s) = K_events s"
  "coherent_calls (cycleInputs e s) = coherent_calls s"
  by (simp_all add: cycleInputs_def)

lemma isPathActive_frame:
  "inhibitExecute (case isPathActive e s of Returned t \<Rightarrow> t | Continues t \<Rightarrow> t) = inhibitExecute s"
  "vnav_newPath (case isPathActive e s of Returned t \<Rightarrow> t | Continues t \<Rightarrow> t) = vnav_newPath s"
  "currentVerticalArmedStates_0 (case isPathActive e s of Returned t \<Rightarrow> t | Continues t \<Rightarrow> t)
     = currentVerticalArmedStates_0 s"
  by (simp_all add: isPathActive_def Let_def)

lemma isThereANewPath_cases:
  assumes "vnav_newPath s"
  shows "isThereANewPath e (cycleInputs e s) =
     (if inhibitCondition e s then Returned ((cycleInputs e s)\<lparr>inhibitExecute := True\<rparr>)
      else Continues ((cycleInputs e s)\<lparr>inhibitExecute := False,
                        pathArm := False,
                        pathArmAbove := False,
                        pathActive := False,
                        pathActivate := False,
                        vnav_newPath := False\<rparr>))"
  using assms
  by (simp add: isThereANewPath_def inhibitCondition_def js_cmp_def split: option.split)

lemma update_inhibited:
  assumes "vnav_vnavCalculating e" "vnav_pathCalculating e" "vnav_newPath s" "inhibitCondition e s"
  shows "update e s = (cycleInputs e s)\<lparr>inhibitExecute := True\<rparr>"
  using assms by (simp add: update_unfold pathData_def isThereANewPath_cases)

lemma update_accepted:
  assumes "vnav_vnavCalculating e" "vnav_pathCalculating e" "vnav_newPath s" "\<not> inhibitCondition e s"
  shows "\<not> inhibitExecute (update e s) \<and> \<not> vnav_newPath (update e s)"
proof -
  let ?a = "(cycleInputs e s)\<lparr>inhibitExecute := False, pathArm := False, pathArmAbove := False,
              pathActive := False, pathActivate := False, vnav_newPath := False\<rparr>"
  let ?b = "canPathExecute e (canPathArm e ?a)"
  have u: "update e s = (case isPathActive e ?b of
              Returned t \<Rightarrow> t | Continues t \<Rightarrow> vnavAltSlotRequest e (execute e t))"
    using assms by (simp add: update_unfold pathData_def isThereANewPath_cases)
  have "\<not> inhibitExecute ?b \<and> \<not> vnav_newPath ?b" by simp
  with isPathActive_frame(1,2) [of e ?b] show ?thesis
    unfolding u by (cases "isPathActive e ?b") simp_all
qed

lemma onPath_facts:
  "vnav_newPath onPath" "vnavTargetAltitude onPath = Some 8000" "vnavAltSlot onPath = Some 2"
  "queuedEvents onPath = [VNAV_REQUEST_SLOT_2]" "pathActive onPath"
  by (simp_all add: onPath_def update_descent)

lemma newPathEnv_inhibited: "update newPathEnv onPath = (cycleInputs newPathEnv onPath)\<lparr>inhibitExecute := True\<rparr>"
  by (rule update_inhibited) (simp_all add: newPathEnv_def descentEnv_def inhibitCondition_def onPath_facts)


section \<open>The claims on the vertical path director\<close>

subsection \<open>The arming flags\<close>

lemma interceptingConstraint_inhibit [simp]:
  "inhibitExecute (interceptingConstraint e s) = inhibitExecute s"
  by (auto simp add: interceptingConstraint_def truthy_def Let_def)

lemma cycleInputs_inhibit [simp]:
  "inhibitExecute (cycleInputs e s) = inhibitExecute s"
  by (simp add: cycleInputs_def)

lemma flags_kept_by_execute:
  assumes "\<not> (pathArm t \<and> pathArmAbove t)" "\<not> (pathActive t \<and> pathArmAbove t)"
    and "pathActivate t \<longrightarrow> inhibitExecute t \<or> \<not> pathArmAbove t"
  shows "\<not> (pathArm (execute e t) \<and> pathArmAbove (execute e t))
     \<and> \<not> (pathActive (execute e t) \<and> pathArmAbove (execute e t))
     \<and> (pathActivate (execute e t) \<longrightarrow> inhibitExecute (execute e t))"
  using assms by (auto simp add: execute_active)

lemma flags_after_isThereANewPath:
  assumes "\<not> (pathArm s \<and> pathArmAbove s)" "\<not> (pathActive s \<and> pathArmAbove s)"
    and "pathActivate s \<longrightarrow> inhibitExecute s"
  shows "case isThereANewPath e s of
           Returned t \<Rightarrow> \<not> (pathArm t \<and> pathArmAbove t) \<and> \<not> (pathActive t \<and> pathArmAbove t)
             \<and> (pathActivate t \<longrightarrow> inhibitExecute t)
         | Continues t \<Rightarrow> \<not> (pathArm t \<and> pathArmAbove t) \<and> \<not> (pathActive t \<and> pathArmAbove t)
             \<and> (pathActivate t \<longrightarrow> inhibitExecute t)"
  using assms by (simp add: isThereANewPath_def)

lemma canPathArm_above:
  "\<not> pathActive s \<Longrightarrow> pathArmAbove (canPathArm e s) \<Longrightarrow> vnav_altDeviation e > 1000"
  by (simp add: canPathArm_def Let_def split: if_splits)

lemma canPathArm_active [simp]:
  "pathActive s \<Longrightarrow> canPathArm e s = s"
  by (simp add: canPathArm_def)

lemma canPathExecute_active [simp]:
  "pathActive s \<Longrightarrow> canPathExecute e s = s"
  by (simp add: canPathExecute_def)

lemma canPathExecute_activate:
  "pathActivate (canPathExecute e s) =
     (pathActivate s
      \<or> (\<not> pathActive s \<and> pathArm s \<and> vnav_altDeviation e > - 300 \<and> vnav_altDeviation e < 1000)
      \<or> (\<not> pathActive s \<and> \<not> pathArm s \<and> pathArmAbove s
          \<and> vnav_altDeviation e > - 300 \<and> vnav_altDeviation e < 300))"
  by (auto simp add: canPathExecute_def Let_def)

lemma flags_after_arming:
  assumes "\<not> (pathArm s \<and> pathArmAbove s)" "\<not> (pathActive s \<and> pathArmAbove s)"
    and "pathActivate s \<longrightarrow> inhibitExecute s"
  shows "\<not> (pathArm (canPathExecute e (canPathArm e s)) \<and> pathArmAbove (canPathExecute e (canPathArm e s)))
     \<and> \<not> (pathActive (canPathExecute e (canPathArm e s)) \<and> pathArmAbove (canPathExecute e (canPathArm e s)))
     \<and> (pathActivate (canPathExecute e (canPathArm e s))
          \<longrightarrow> inhibitExecute (canPathExecute e (canPathArm e s))
              \<or> \<not> pathArmAbove (canPathExecute e (canPathArm e s)))"
proof (cases "pathActive s")
  case True
  with assms show ?thesis by simp
next
  case False
  have x: "\<not> (pathArm (canPathArm e s) \<and> pathArmAbove (canPathArm e s))"
    using assms(1) by (rule canPathArm_exclusive)
  have "pathArmAbove (canPathArm e s) \<longrightarrow> vnav_altDeviation e > 1000"
    using False canPathArm_above by blast
  with x assms(3) False show ?thesis
    by (auto simp add: canPathExecute_activate)
qed

lemma flags_after_isPathActive:
  assumes "\<not> (pathArm s \<and> pathArmAbove s)" "\<not> (pathActive s \<and> pathArmAbove s)"
    and "pathActivate s \<longrightarrow> inhibitExecute s \<or> \<not> pathArmAbove s"
  shows "case isPathActive e s of
           Returned t \<Rightarrow> \<not> (pathArm t \<and> pathArmAbove t) \<and> \<not> (pathActive t \<and> pathArmAbove t)
             \<and> (pathActivate t \<longrightarrow> inhibitExecute t)
         | Continues t \<Rightarrow> \<not> (pathArm t \<and> pathArmAbove t) \<and> \<not> (pathActive t \<and> pathArmAbove t)
             \<and> (pathActivate t \<longrightarrow> inhibitExecute t \<or> \<not> pathArmAbove t)"
  using assms by (simp add: isPathActive_def Let_def)

lemma flags_after_pathData:
  assumes "\<not> (pathArm s \<and> pathArmAbove s)" "\<not> (pathActive s \<and> pathArmAbove s)"
    and "pathActivate s \<longrightarrow> inhibitExecute s"
  shows "case pathData e s of
           Returned t \<Rightarrow> \<not> (pathArm t \<and> pathArmAbove t) \<and> \<not> (pathActive t \<and> pathArmAbove t)
             \<and> (pathActivate t \<longrightarrow> inhibitExecute t)
         | Continues t \<Rightarrow> \<not> (pathArm t \<and> pathArmAbove t) \<and> \<not> (pathActive t \<and> pathArmAbove t)
             \<and> (pathActivate t \<longrightarrow> inhibitExecute t \<or> \<not> pathArmAbove t)"
proof (cases "isThereANewPath e s")
  case (Returned t)
  with flags_after_isThereANewPath [OF assms, of e] show ?thesis
    by (simp add: pathData_def)
next
  case (Continues t)
  with flags_after_isThereANewPath [OF assms, of e] have
    "\<not> (pathArm t \<and> pathArmAbove t)" "\<not> (pathActive t \<and> pathArmAbove t)"
    "pathActivate t \<longrightarrow> inhibitExecute t"
    by simp_all
  from flags_after_arming [OF this, of e] have
    "\<not> (pathArm (canPathExecute e (canPathArm e t)) \<and> pathArmAbove (canPathExecute e (canPathArm e t)))"
    "\<not> (pathActive (canPathExecute e (canPathArm e t)) \<and> pathArmAbove (canPathExecute e (canPathArm e t)))"
    "pathActivate (canPathExecute e (canPathArm e t))
          \<longrightarrow> inhibitExecute (canPathExecute e (canPathArm e t))
              \<or> \<not> pathArmAbove (canPathExecute e (canPathArm e t))"
    by blast+
  from flags_after_isPathActive [OF this, of e] Continues show ?thesis
    by (simp add: pathData_def)
qed

lemma flags_after_update:
  assumes "\<not> (pathArm s \<and> pathArmAbove s)" "\<not> (pathActive s \<and> pathArmAbove s)"
    and "pathActivate s \<longrightarrow> inhibitExecute s"
  shows "\<not> (pathArm (update e s) \<and> pathArmAbove (update e s))
     \<and> \<not> (pathActive (update e s) \<and> pathArmAbove (update e s))
     \<and> (pathActivate (update e s) \<longrightarrow> inhibitExecute (update e s))"
proof -
  have c: "\<not> (pathArm (cycleInputs e s) \<and> pathArmAbove (cycleInputs e s))"
    "\<not> (pathActive (cycleInputs e s) \<and> pathArmAbove (cycleInputs e s))"
    "pathActivate (cycleInputs e s) \<longrightarrow> inhibitExecute (cycleInputs e s)"
    using assms by simp_all
  show ?thesis
  proof (cases "pathData e (cycleInputs e s)")
    case (Returned t)
    with flags_after_pathData [OF c, of e] flags_kept_by_execute [of "cycleInputs e s" e] c
    show ?thesis by (auto simp add: update_unfold)
  next
    case (Continues t)
    with flags_after_pathData [OF c, of e] have
      "\<not> (pathArm t \<and> pathArmAbove t)" "\<not> (pathActive t \<and> pathArmAbove t)"
      "pathActivate t \<longrightarrow> inhibitExecute t \<or> \<not> pathArmAbove t"
      by simp_all
    from flags_kept_by_execute [OF this, of e] flags_kept_by_execute [of "cycleInputs e s" e] c Continues
    show ?thesis by (auto simp add: update_unfold)
  qed
qed

text \<open>
  C1, as the code has it. After construction and any sequence of update cycles,
  deactivations, failures and changes from outside, at most one of the two arming flags is
  set, and the path is never active while armed from above. The one pair that does occur is
  active together with armed from below: activation does not clear the arming flag that led
  to it, and arming is not evaluated again while the path is active.
\<close>

theorem arming_flags_exclusive:
  "\<not> (pathArm (calls cs (constructor w)) \<and> pathArmAbove (calls cs (constructor w)))
   \<and> \<not> (pathActive (calls cs (constructor w)) \<and> pathArmAbove (calls cs (constructor w)))"
proof -
  have "\<not> (pathArm s \<and> pathArmAbove s) \<and> \<not> (pathActive s \<and> pathArmAbove s)
          \<and> (pathActivate s \<longrightarrow> inhibitExecute s)
        \<Longrightarrow> \<not> (pathArm (calls cs s) \<and> pathArmAbove (calls cs s))
          \<and> \<not> (pathActive (calls cs s) \<and> pathArmAbove (calls cs s))
          \<and> (pathActivate (calls cs s) \<longrightarrow> inhibitExecute (calls cs s))" for s
  proof (induction cs arbitrary: s)
    case Nil
    then show ?case by simp
  next
    case (Cons c cs)
    from Cons.prems have "\<not> (pathArm (call c s) \<and> pathArmAbove (call c s))
          \<and> \<not> (pathActive (call c s) \<and> pathArmAbove (call c s))
          \<and> (pathActivate (call c s) \<longrightarrow> inhibitExecute (call c s))"
      by (cases c) (simp_all add: activate_def flags_after_update failed_def)
    then show ?case using Cons.IH by simp
  qed
  moreover have "\<not> (pathArm (constructor w) \<and> pathArmAbove (constructor w))
      \<and> \<not> (pathActive (constructor w) \<and> pathArmAbove (constructor w))
      \<and> (pathActivate (constructor w) \<longrightarrow> inhibitExecute (constructor w))"
    by (simp add: constructor_def)
  ultimately show ?thesis by blast
qed

theorem arming_flags_exclusive_witness:
  "\<not> (pathArm (calls [Update descentEnv, Outside True None [] 3 1 0, Update newPathEnv] (constructor quietWorld))
      \<and> pathArmAbove (calls [Update descentEnv, Outside True None [] 3 1 0, Update newPathEnv] (constructor quietWorld)))
   \<and> \<not> (pathActive (calls [Update descentEnv, Outside True None [] 3 1 0, Update newPathEnv] (constructor quietWorld))
      \<and> pathArmAbove (calls [Update descentEnv, Outside True None [] 3 1 0, Update newPathEnv] (constructor quietWorld)))"
  by (rule arming_flags_exclusive)

text \<open>
  C1 as stated fails after the first cycle of the example descent: the director arms from
  below and activates in the same cycle, and ends it both active and armed.
\<close>

theorem active_and_armed_counterexample:
  "pathActive (calls [Update descentEnv] (constructor quietWorld))
   \<and> pathArm (calls [Update descentEnv] (constructor quietWorld))"
proof -
  have "constructor quietWorld = quietWorld"
    by (simp add: constructor_def quietWorld_def)
  then show ?thesis
    by (simp add: update_descent)
qed

subsection \<open>A new path\<close>

text \<open>
  C4, as the code has it. In a cycle that processes path data with the new-path signal
  set, the cycle inhibits execution and returns if and only if the new target is lower than
  the held target, by any amount, the indicated altitude is more than 100 ft above the held
  target, and the altitude deviation is below \<open>-100\<close> ft. It then returns right after
  reading its inputs, with the signal still set. Otherwise the new-path check clears the
  inhibit flag, the two arming flags, the active and the activate flag and the signal, and
  the cycle goes on; at its end the inhibit flag and the signal are still clear.
\<close>

theorem new_path_inhibit:
  assumes "vnav_vnavCalculating e" "vnav_pathCalculating e" "vnav_newPath s"
  shows "(inhibitExecute (update e s) \<longleftrightarrow>
            (\<exists>held. vnavTargetAltitude s = Some held \<and> vnav_vnavTargetAltitude e < held
                    \<and> held + 100 < sv_INDICATED_ALTITUDE e)
            \<and> vnav_altDeviation e < - 100)
       \<and> (vnav_newPath (update e s) \<longleftrightarrow> inhibitExecute (update e s))
       \<and> (inhibitExecute (update e s) \<longrightarrow> update e s = (cycleInputs e s)\<lparr>inhibitExecute := True\<rparr>)
       \<and> (\<not> inhibitExecute (update e s) \<longrightarrow>
            isThereANewPath e (cycleInputs e s) =
              Continues ((cycleInputs e s)\<lparr>inhibitExecute := False,
                           pathArm := False,
                           pathArmAbove := False,
                           pathActive := False,
                           pathActivate := False,
                           vnav_newPath := False\<rparr>))"
proof (cases "inhibitCondition e s")
  case True
  have c: "(\<exists>held. vnavTargetAltitude s = Some held \<and> vnav_vnavTargetAltitude e < held
                    \<and> held + 100 < sv_INDICATED_ALTITUDE e) \<and> vnav_altDeviation e < - 100"
    using True by (auto simp add: inhibitCondition_def split: option.splits)
  have u: "update e s = (cycleInputs e s)\<lparr>inhibitExecute := True\<rparr>"
    using assms True by (rule update_inhibited)
  have n: "vnav_newPath (update e s)" "inhibitExecute (update e s)"
    using assms(3) by (simp_all add: u)
  from c u n show ?thesis by simp
next
  case False
  have c: "\<not> ((\<exists>held. vnavTargetAltitude s = Some held \<and> vnav_vnavTargetAltitude e < held
                    \<and> held + 100 < sv_INDICATED_ALTITUDE e) \<and> vnav_altDeviation e < - 100)"
    using False by (auto simp add: inhibitCondition_def split: option.splits)
  have n: "\<not> inhibitExecute (update e s) \<and> \<not> vnav_newPath (update e s)"
    using assms False by (rule update_accepted)
  have i: "isThereANewPath e (cycleInputs e s) =
              Continues ((cycleInputs e s)\<lparr>inhibitExecute := False,
                           pathArm := False,
                           pathArmAbove := False,
                           pathActive := False,
                           pathActivate := False,
                           vnav_newPath := False\<rparr>)"
    using assms(3) False by (simp add: isThereANewPath_cases)
  from c n i show ?thesis by blast
qed

theorem new_path_inhibit_witness:
  "vnav_vnavCalculating newPathEnv \<and> vnav_pathCalculating newPathEnv \<and> vnav_newPath onPath
   \<and> inhibitExecute (update newPathEnv onPath) \<and> vnav_newPath (update newPathEnv onPath)"
proof -
  have h: "vnav_vnavCalculating newPathEnv" "vnav_pathCalculating newPathEnv" "vnav_newPath onPath"
    by (simp_all add: newPathEnv_def descentEnv_def onPath_facts)
  have "vnavTargetAltitude onPath = Some 8000 \<and> vnav_vnavTargetAltitude newPathEnv < 8000
        \<and> (8000::real) + 100 < sv_INDICATED_ALTITUDE newPathEnv \<and> vnav_altDeviation newPathEnv < - 100"
    by (simp add: newPathEnv_def descentEnv_def onPath_facts)
  with new_path_inhibit [OF h] h show ?thesis by blast
qed

text \<open>
  C4 as stated fails when the new target is lower by 100 ft or less: here it is 50 ft lower
  than the held 8000 ft, and the cycle inhibits and returns all the same.
\<close>

theorem new_path_small_step_counterexample:
  "vnav_vnavCalculating smallStepEnv \<and> vnav_pathCalculating smallStepEnv \<and> vnav_newPath onPath
   \<and> vnavTargetAltitude onPath = Some 8000
   \<and> \<not> (vnav_vnavTargetAltitude smallStepEnv < 8000 - 100)
   \<and> inhibitExecute (update smallStepEnv onPath)
   \<and> update smallStepEnv onPath = (cycleInputs smallStepEnv onPath)\<lparr>inhibitExecute := True\<rparr>"
proof -
  have "update smallStepEnv onPath = (cycleInputs smallStepEnv onPath)\<lparr>inhibitExecute := True\<rparr>"
    by (rule update_inhibited)
      (simp_all add: smallStepEnv_def descentEnv_def inhibitCondition_def onPath_facts)
  then show ?thesis
    by (simp add: smallStepEnv_def descentEnv_def onPath_facts)
qed

subsection \<open>Deactivation and failure\<close>

text \<open>
  C5, as the code has it. \<^verbatim>\<open>deactivate\<close> clears the constraint flag, both arming
  flags, the active, activate and alert-fired flags, and sets the four annunciators to zero;
  \<^verbatim>\<open>failed\<close> clears the constraint flag, the arm-from-below flag, the active,
  activate and alert-fired flags, sets the four annunciators to zero and commands the
  upstream altitude as the target of slot 1. Neither touches the execution-inhibit flag.
\<close>

theorem deactivate_and_failed:
  "\<not> constraintExists (deactivate s) \<and> \<not> pathArm (deactivate s) \<and> \<not> pathArmAbove (deactivate s)
   \<and> \<not> pathActive (deactivate s) \<and> \<not> pathActivate (deactivate s) \<and> \<not> pathArmFired (deactivate s)
   \<and> inhibitExecute (deactivate s) = inhibitExecute s
   \<and> L_AP_CURRENT_TARGET_ALTITUDE_IS_CONSTRAINT (deactivate s) = 0
   \<and> L_WT_CJ4_SNOWFLAKE (deactivate s) = 0
   \<and> L_WT_VNAV_PATH_STATUS (deactivate s) = 0
   \<and> L_WT_CJ4_DONUT (deactivate s) = Number 0
   \<and> coherent_calls (deactivate s) = coherent_calls s
   \<and> \<not> constraintExists (failed e s) \<and> \<not> pathArm (failed e s)
   \<and> \<not> pathActive (failed e s) \<and> \<not> pathActivate (failed e s) \<and> \<not> pathArmFired (failed e s)
   \<and> inhibitExecute (failed e s) = inhibitExecute s
   \<and> L_AP_CURRENT_TARGET_ALTITUDE_IS_CONSTRAINT (failed e s) = 0
   \<and> L_WT_CJ4_SNOWFLAKE (failed e s) = 0
   \<and> L_WT_VNAV_PATH_STATUS (failed e s) = 0
   \<and> L_WT_CJ4_DONUT (failed e s) = Number 0
   \<and> coherent_calls (failed e s) = coherent_calls s @ [AP_ALT_VAR_SET_ENGLISH 1 (Some (vnav_altitude e)) True]"
  by (simp add: deactivate_def failed_def)

text \<open>
  C5 as stated fails for the execution-inhibit flag: a cycle that a new path has inhibited
  leaves the flag set, and it is still set after \<^verbatim>\<open>deactivate\<close> and after
  \<^verbatim>\<open>failed\<close>.
\<close>

theorem deactivate_keeps_inhibit_counterexample:
  "inhibitExecute (deactivate (update newPathEnv onPath))
   \<and> inhibitExecute (failed descentEnv (update newPathEnv onPath))"
  by (simp add: newPathEnv_inhibited failed_def)

subsection \<open>The intercept check\<close>

lemma isThereANewPath_armed:
  "currentVerticalArmedStates_0 (case isThereANewPath e s of Returned t \<Rightarrow> t | Continues t \<Rightarrow> t)
     = currentVerticalArmedStates_0 s"
  by (simp add: isThereANewPath_def)

lemma pathData_armed:
  "currentVerticalArmedStates_0 (case pathData e s of Returned t \<Rightarrow> t | Continues t \<Rightarrow> t)
     = currentVerticalArmedStates_0 s"
proof (cases "isThereANewPath e s")
  case (Returned t)
  with isThereANewPath_armed [of e s] show ?thesis by (simp add: pathData_def)
next
  case (Continues t)
  with isThereANewPath_armed [of e s] isPathActive_frame(3) [of e "canPathExecute e (canPathArm e t)"]
  show ?thesis by (simp add: pathData_def)
qed

lemma cycleInputs_armed:
  "currentVerticalArmedStates_0 (cycleInputs e s) = currentVerticalArmedStates_0 (interceptingConstraint e s)"
  by (simp add: cycleInputs_def)

lemma update_armed:
  "currentVerticalArmedStates_0 (update e s) = currentVerticalArmedStates_0 (interceptingConstraint e s)"
proof -
  have "currentVerticalArmedStates_0 (case pathData e (cycleInputs e s) of
            Returned t \<Rightarrow> t | Continues t \<Rightarrow> vnavAltSlotRequest e (execute e t))
        = currentVerticalArmedStates_0 (cycleInputs e s)"
    using pathData_armed [of e "cycleInputs e s"]
    by (cases "pathData e (cycleInputs e s)") simp_all
  then show ?thesis
    by (simp add: update_unfold cycleInputs_armed)
qed

text \<open>
  C9. The inner condition of the intercept check is an assignment of the glide-path mode,
  which is truthy. So whenever the path is active, the vertical mode is altitude capture and
  execution is not inhibited, the check stores the glide-path mode in the first armed state
  of the mode selector, clears the inhibit flag and sets the path status to 1; in every
  other case it changes nothing. The check never sets the inhibit flag: its else branch is
  dead. Nothing later in the cycle touches the armed state, so the cycle ends with the
  glide-path mode stored there.
\<close>

theorem intercept_check_takes_first_branch:
  "interceptingConstraint e s =
     (if pathActive s \<and> currentVerticalActiveState e = ALTC \<and> \<not> inhibitExecute s
      then s\<lparr>currentVerticalArmedStates_0 := Some GP, inhibitExecute := False, L_WT_VNAV_PATH_STATUS := 1\<rparr>
      else s)
   \<and> (pathActive s \<and> currentVerticalActiveState e = ALTC \<and> \<not> inhibitExecute s
        \<longrightarrow> currentVerticalArmedStates_0 (update e s) = Some GP)
   \<and> (inhibitExecute (interceptingConstraint e s) \<longrightarrow> inhibitExecute s)"
  by (simp add: update_armed interceptingConstraint_def truthy_def)

lemma onPath_not_inhibited: "\<not> inhibitExecute onPath"
  by (simp add: onPath_def update_descent)

lemma onPath_armed: "currentVerticalArmedStates_0 onPath = None"
  by (simp add: onPath_def update_armed interceptingConstraint_def quietWorld_def)

theorem intercept_check_takes_first_branch_witness:
  "pathActive onPath \<and> currentVerticalActiveState (descentEnv\<lparr>currentVerticalActiveState := ALTC\<rparr>) = ALTC
   \<and> \<not> inhibitExecute onPath
   \<and> currentVerticalArmedStates_0 onPath = None
   \<and> currentVerticalArmedStates_0 (update (descentEnv\<lparr>currentVerticalActiveState := ALTC\<rparr>) onPath) = Some GP"
proof -
  have h: "pathActive onPath \<and> currentVerticalActiveState (descentEnv\<lparr>currentVerticalActiveState := ALTC\<rparr>) = ALTC
     \<and> \<not> inhibitExecute onPath"
    by (simp add: onPath_facts onPath_not_inhibited)
  with intercept_check_takes_first_branch [of "descentEnv\<lparr>currentVerticalActiveState := ALTC\<rparr>" onPath]
  have "currentVerticalArmedStates_0 (update (descentEnv\<lparr>currentVerticalActiveState := ALTC\<rparr>) onPath) = Some GP"
    by blast
  with h show ?thesis by (simp add: onPath_armed)
qed

subsection \<open>The arming rule\<close>

lemma canPathArm_table:
  assumes "\<not> pathActive s" "indicatedAltitude s = Some ind"
  shows "pathArm (canPathArm e s) =
           (\<not> ((currentVerticalActiveState e = ALTC \<or> currentVerticalActiveState e = ALT)
                \<and> Math_round (sv_AUTOPILOT_ALTITUDE_LOCK_VAR_3 e) = Math_round (vnav_vnavTargetAltitude e))
            \<and> vnav_altDeviation e \<le> 1000 \<and> 0 \<le> vnav_distanceToTod e \<and> vnav_distanceToTod e < 20
            \<and> (selectedAlt1 e + 75 < ind \<or> (currentLateralActiveState e = APPR \<and> vnav_gpExists e)))"
    and "pathArmAbove (canPathArm e s) =
           (\<not> ((currentVerticalActiveState e = ALTC \<or> currentVerticalActiveState e = ALT)
                \<and> Math_round (sv_AUTOPILOT_ALTITUDE_LOCK_VAR_3 e) = Math_round (vnav_vnavTargetAltitude e))
            \<and> vnav_altDeviation e > 1000 \<and> vnav_topOfDescent e > vnav_vnavTargetDistance e
            \<and> (selectedAlt1 e + 75 < ind \<or> (currentLateralActiveState e = APPR \<and> vnav_gpExists e)))"
  using assms by (auto simp add: canPathArm_def js_cmp_def Let_def)

lemma isPathActive_inactive: "\<not> pathActive s \<Longrightarrow> isPathActive e s = Continues s"
  by (simp add: isPathActive_def)

lemma update_arming:
  assumes "vnav_vnavCalculating e" "vnav_pathCalculating e"
    and "isThereANewPath e (cycleInputs e s) = Continues a" "\<not> pathActive a"
  shows "pathArm (update e s) = pathArm (canPathArm e a)"
    and "pathArmAbove (update e s) = pathArmAbove (canPathArm e a)"
  using assms by (simp_all add: update_unfold pathData_def isPathActive_inactive)

text \<open>
  C2, as the code has it. Take an update cycle that evaluates the arming step with the path
  not active: upstream data and path data are there, and either no new path is signalled and
  the path is not active, or a new path is signalled and accepted. At the end of the cycle
  arm-from-below is set exactly when the no-arm condition fails (the vertical mode is not
  altitude capture or hold with the locked altitude rounding to the rounded upstream target),
  the deviation is at most 1000 ft, the distance to the top of descent is at least 0 and
  below 20 NM, and the selected altitude plus 75 ft is strictly below the indicated altitude
  or the lateral mode is approach with a glide path. Arm-from-above is set exactly when the
  no-arm condition fails, the deviation is above 1000 ft, the top-of-descent distance
  exceeds the target distance, and the same altitude or approach condition holds.
\<close>

theorem arming_rule:
  assumes "vnav_vnavCalculating e" "vnav_pathCalculating e"
    and "if vnav_newPath s then \<not> inhibitCondition e s else \<not> pathActive s"
  shows "pathArm (update e s) =
           (\<not> ((currentVerticalActiveState e = ALTC \<or> currentVerticalActiveState e = ALT)
                \<and> Math_round (sv_AUTOPILOT_ALTITUDE_LOCK_VAR_3 e) = Math_round (vnav_vnavTargetAltitude e))
            \<and> vnav_altDeviation e \<le> 1000 \<and> 0 \<le> vnav_distanceToTod e \<and> vnav_distanceToTod e < 20
            \<and> (selectedAlt1 e + 75 < sv_INDICATED_ALTITUDE e
                \<or> (currentLateralActiveState e = APPR \<and> vnav_gpExists e)))
       \<and> pathArmAbove (update e s) =
           (\<not> ((currentVerticalActiveState e = ALTC \<or> currentVerticalActiveState e = ALT)
                \<and> Math_round (sv_AUTOPILOT_ALTITUDE_LOCK_VAR_3 e) = Math_round (vnav_vnavTargetAltitude e))
            \<and> vnav_altDeviation e > 1000 \<and> vnav_topOfDescent e > vnav_vnavTargetDistance e
            \<and> (selectedAlt1 e + 75 < sv_INDICATED_ALTITUDE e
                \<or> (currentLateralActiveState e = APPR \<and> vnav_gpExists e)))"
proof -
  obtain a where a: "isThereANewPath e (cycleInputs e s) = Continues a" "\<not> pathActive a"
    "indicatedAltitude a = Some (sv_INDICATED_ALTITUDE e)"
  proof (cases "vnav_newPath s")
    case True
    with assms(3) have "\<not> inhibitCondition e s" by simp
    with True that show ?thesis by (simp add: isThereANewPath_cases)
  next
    case False
    with assms(3) have "\<not> pathActive s" by simp
    with False that [of "cycleInputs e s"] show ?thesis by (simp add: isThereANewPath_def)
  qed
  from update_arming [OF assms(1,2) a(1,2)] canPathArm_table [OF a(2,3), of e]
  show ?thesis by simp
qed

text \<open>
  The example of the specification: 500 ft of deviation, 10 NM to the top of descent, the
  selected altitude 100 ft below the indicated altitude. The director arms from below and
  not from above.
\<close>

theorem arming_rule_witness:
  "vnav_vnavCalculating descentEnv \<and> vnav_pathCalculating descentEnv
   \<and> \<not> vnav_newPath quietWorld \<and> \<not> pathActive quietWorld
   \<and> vnav_altDeviation descentEnv = 500 \<and> vnav_distanceToTod descentEnv = 10
   \<and> selectedAlt1 descentEnv = sv_INDICATED_ALTITUDE descentEnv - 100
   \<and> pathArm (update descentEnv quietWorld) \<and> \<not> pathArmAbove (update descentEnv quietWorld)"
proof -
  have h: "vnav_vnavCalculating descentEnv" "vnav_pathCalculating descentEnv"
    "if vnav_newPath quietWorld then \<not> inhibitCondition descentEnv quietWorld else \<not> pathActive quietWorld"
    by (simp_all add: descentEnv_def quietWorld_def)
  from arming_rule [OF h] show ?thesis
    by (simp add: descentEnv_def quietWorld_def)
qed

text \<open>
  C2 as stated fails on the boundary: with the selected altitude exactly 75 ft below the
  indicated altitude, which is at least 75 ft below, the director does not arm from below.
\<close>

theorem arming_boundary_counterexample:
  "vnav_vnavCalculating boundaryEnv \<and> vnav_pathCalculating boundaryEnv
   \<and> \<not> vnav_newPath quietWorld \<and> \<not> pathActive quietWorld
   \<and> currentVerticalActiveState boundaryEnv = PTCH
   \<and> vnav_altDeviation boundaryEnv \<le> 1000
   \<and> 0 \<le> vnav_distanceToTod boundaryEnv \<and> vnav_distanceToTod boundaryEnv < 20
   \<and> selectedAlt1 boundaryEnv + 75 \<le> sv_INDICATED_ALTITUDE boundaryEnv
   \<and> \<not> pathArm (update boundaryEnv quietWorld)"
proof -
  have "isThereANewPath boundaryEnv (cycleInputs boundaryEnv quietWorld) = Continues (cycleInputs boundaryEnv quietWorld)"
    by (simp add: isThereANewPath_def quietWorld_def)
  moreover have "\<not> pathActive (cycleInputs boundaryEnv quietWorld)"
    by (simp add: quietWorld_def)
  ultimately have "pathArm (update boundaryEnv quietWorld)
      = pathArm (canPathArm boundaryEnv (cycleInputs boundaryEnv quietWorld))"
    by (intro update_arming) (simp_all add: boundaryEnv_def descentEnv_def)
  also have "\<dots> = False"
    by (simp add: canPathArm_def js_cmp_def boundaryEnv_def descentEnv_def quietWorld_def Let_def)
  finally show ?thesis
    by (simp add: boundaryEnv_def descentEnv_def quietWorld_def)
qed

subsection \<open>Slot reconciliation\<close>



lemma pathData_queue:
  "queuedEvents (case pathData e s of Returned t \<Rightarrow> t | Continues t \<Rightarrow> t) = queuedEvents s"
  by (simp add: pathData_def isThereANewPath_def isPathActive_def Let_def)












subsection \<open>The vertical speed on the path\<close>

lemma execute_path_last:
  "coherent_calls (execute_path e s) \<noteq> []"
  "last (coherent_calls (execute_path e s)) = AP_VS_VAR_SET_ENGLISH 2 (setVerticalSpeed e)"
  by (simp_all add: execute_path_def Let_def)

lemma execute_on_path:
  assumes "\<not> inhibitExecute s" "pathActive s \<or> pathActivate s"
  shows "\<exists>t. execute e s = execute_path e t"
proof -
  let ?p = "monitorValues (setDonut e (setSnowflake e (checkPreselector e s)))"
  let ?q = "execute_status e (L_WT_VNAV_PATH_STATUS ?p) (execute_activate e (L_WT_VNAV_PATH_STATUS ?p) ?p)"
  have "pathActive ?q" using assms(2) by simp
  then have "execute_commands e ?q = execute_path e ?q"
    by (simp add: execute_commands_def)
  moreover have "execute e s = execute_commands e ?q"
    using assms(1) by (simp add: execute_def Let_def)
  ultimately show ?thesis by auto
qed

text \<open>
  C8, as the code has it. When the execution phase runs uninhibited with the path active or
  activating, its last command is the vertical speed for slot 2, which is the following
  value rounded up to a multiple of 100: the desired vertical speed when the target is
  strictly between 0 and 1 NM away or the deviation is within 10 ft; for a deviation above
  10 ft the desired vertical speed minus the correction 2.1 times the deviation, at least
  100 and at most the maximum correction of the 6 degree path; for a deviation below
  \<open>-10\<close> ft the desired vertical speed plus the correction 2.1 times the deviation's
  magnitude, at least 100 and at most the negated desired vertical speed. The desired
  vertical speed is \<open>-101.2686667\<close> times the ground speed times the tangent of the
  flight-path angle in force.
\<close>

theorem path_vertical_speed:
  assumes "\<not> inhibitExecute s" "pathActive s \<or> pathActivate s"
  shows "coherent_calls (execute e s) \<noteq> []
     \<and> last (coherent_calls (execute e s)) = AP_VS_VAR_SET_ENGLISH 2 (setVerticalSpeed e)
     \<and> setVerticalSpeed e =
         100 * of_int \<lceil>(if 0 < vnav_vnavTargetDistance e \<and> vnav_vnavTargetDistance e < 1 then
                            desiredVerticalSpeed e
                          else if vnav_altDeviation e > 10 then
                            desiredVerticalSpeed e
                              - min (max (2.1 * vnav_altDeviation e) 100)
                                  (101.2686667 * sv_GPS_GROUND_SPEED e * tan (6 * (pi / 180))
                                     + desiredVerticalSpeed e)
                          else if vnav_altDeviation e < - 10 then
                            desiredVerticalSpeed e
                              + min (max (2.1 * \<bar>vnav_altDeviation e\<bar>) 100) (- desiredVerticalSpeed e)
                          else desiredVerticalSpeed e) / 100\<rceil>
     \<and> desiredVerticalSpeed e =
         - 101.2686667 * sv_GPS_GROUND_SPEED e
           * tan ((if currentLateralActiveState e = APPR \<and> vnav_gpExists e then vnav_gpAngle e
                   else vnav_desiredFPA e) * (pi / 180))"
proof -
  from execute_on_path [OF assms] obtain t where "execute e s = execute_path e t" by blast
  then have "coherent_calls (execute e s) \<noteq> []
     \<and> last (coherent_calls (execute e s)) = AP_VS_VAR_SET_ENGLISH 2 (setVerticalSpeed e)"
    by (simp add: execute_path_last)
  moreover have "setVerticalSpeed e =
         100 * of_int \<lceil>(if 0 < vnav_vnavTargetDistance e \<and> vnav_vnavTargetDistance e < 1 then
                            desiredVerticalSpeed e
                          else if vnav_altDeviation e > 10 then
                            desiredVerticalSpeed e
                              - min (max (2.1 * vnav_altDeviation e) 100)
                                  (101.2686667 * sv_GPS_GROUND_SPEED e * tan (6 * (pi / 180))
                                     + desiredVerticalSpeed e)
                          else if vnav_altDeviation e < - 10 then
                            desiredVerticalSpeed e
                              + min (max (2.1 * \<bar>vnav_altDeviation e\<bar>) 100) (- desiredVerticalSpeed e)
                          else desiredVerticalSpeed e) / 100\<rceil>"
    by (simp add: setVerticalSpeed_def Math_ceil_def Let_def conj_commute)
  moreover have "desiredVerticalSpeed e =
         - 101.2686667 * sv_GPS_GROUND_SPEED e
           * tan ((if currentLateralActiveState e = APPR \<and> vnav_gpExists e then vnav_gpAngle e
                   else vnav_desiredFPA e) * (pi / 180))"
    by (simp add: desiredVerticalSpeed_def activeFPA_def)
  ultimately show ?thesis by blast
qed

lemma belowPathEnv_dvs: "desiredVerticalSpeed belowPathEnv = 0"
  by (simp add: desiredVerticalSpeed_def activeFPA_def belowPathEnv_def descentEnv_def)

lemma belowPathEnv_code: "setVerticalSpeed belowPathEnv = 0"
  by (simp add: setVerticalSpeed_def belowPathEnv_dvs Math_ceil_def Let_def)
     (simp add: belowPathEnv_def descentEnv_def)

theorem path_vertical_speed_witness:
  "\<not> inhibitExecute onPath \<and> pathActive onPath
   \<and> last (coherent_calls (execute belowPathEnv onPath)) = AP_VS_VAR_SET_ENGLISH 2 0"
  using path_vertical_speed [of onPath belowPathEnv]
  by (simp add: onPath_facts onPath_not_inhibited belowPathEnv_code)

text \<open>
  C8 as stated fails for a deviation below \<open>-10\<close> ft, where the cap is not the maximum
  correction of the 6 degree path: on a level path at 200 kt with a deviation of \<open>-100\<close>
  ft the director commands 0, and the specification's wording gives at least 100.
\<close>

theorem below_path_cap_counterexample:
  "\<not> (0 < vnav_vnavTargetDistance belowPathEnv \<and> vnav_vnavTargetDistance belowPathEnv < 1)
   \<and> setVerticalSpeed belowPathEnv = 0
   \<and> 100 \<le> specifiedVerticalSpeed belowPathEnv"
proof -
  have t: "0 < tan (6 * (pi / 180))"
  proof (rule tan_gt_zero)
    show "0 < 6 * (pi / 180)" by simp
    have "6 * (pi / 180) = pi / 30" by simp
    also have "\<dots> < pi / 2" by (simp add: divide_strict_left_mono)
    finally show "6 * (pi / 180) < pi / 2" .
  qed
  define c where "c = min (max (2.1 * \<bar>vnav_altDeviation belowPathEnv\<bar>) 100)
      (101.2686667 * sv_GPS_GROUND_SPEED belowPathEnv * tan (6 * (pi / 180)) + desiredVerticalSpeed belowPathEnv)"
  have "0 < c"
    using t by (simp add: c_def belowPathEnv_dvs) (simp add: belowPathEnv_def descentEnv_def)
  then have "0 < c / 100" by simp
  then have "1 \<le> \<lceil>c / 100\<rceil>" by linarith
  then have "(1::real) \<le> of_int \<lceil>c / 100\<rceil>" by linarith
  moreover have "specifiedVerticalSpeed belowPathEnv = 100 * of_int \<lceil>c / 100\<rceil>"
    by (simp add: specifiedVerticalSpeed_def Math_ceil_def Let_def belowPathEnv_dvs c_def)
       (simp add: belowPathEnv_def descentEnv_def)
  ultimately have "100 \<le> specifiedVerticalSpeed belowPathEnv" by simp
  moreover have "\<not> (0 < vnav_vnavTargetDistance belowPathEnv \<and> vnav_vnavTargetDistance belowPathEnv < 1)"
    by (simp add: belowPathEnv_def descentEnv_def)
  ultimately show ?thesis by (simp add: belowPathEnv_code)
qed

section \<open>The claims on the lateral navigation director\<close>

subsection \<open>Sequencing\<close>

text \<open>
  C6. \<^verbatim>\<open>sequenceToNextWaypoint\<close> changes nothing unless sequencing is not
  inhibited and the ground speed exceeds 25 kt. Under those conditions, with the director's
  plan reference set: if the current waypoint ends in a discontinuity, the state becomes
  \<open>IN_DISCONTINUITY\<close>, the discontinuity flag is raised, sequencing is inhibited and one
  heading is commanded, the present true heading of the aircraft in degrees, corrected for
  wind and converted to magnetic; else if the next waypoint is a runway, sequencing is
  inhibited, the state becomes \<open>TURN_COMPLETING\<close> and the active index advances by one;
  otherwise the state becomes \<open>TURN_COMPLETING\<close> and the active index advances by one.
\<close>

theorem sequencing_rule:
  "(\<not> (sequencingMode s \<noteq> INHIBIT \<and> groundSpeed planeState > 25) \<longrightarrow>
      sequenceToNextWaypoint g e planeState currentWaypoint s = Inr s)
   \<and> (sequencingMode s \<noteq> INHIBIT \<and> groundSpeed planeState > 25 \<and> activeFlightPlan s \<noteq> None \<longrightarrow>
        ((\<exists>w. currentWaypoint = Some w \<and> endsInDiscontinuity w) \<longrightarrow>
           sequenceToNextWaypoint g e planeState currentWaypoint s =
             Inr (s\<lparr>state := IN_DISCONTINUITY,
                    L_WT_CJ4_IN_DISCONTINUITY := 1,
                    sequencingMode := INHIBIT,
                    HEADING_BUG_SET := HEADING_BUG_SET s @
                      [(2, correctMagvar g
                             (normalizeHeading g
                                (sim_PLANE_HEADING_DEGREES_TRUE e * (180 / pi)
                                 - windCorrectionAngle g (sim_PLANE_HEADING_DEGREES_TRUE e * (180 / pi))
                                     (trueAirspeed planeState)
                                     (removeMagvar g (windDirection planeState) (magVar planeState))
                                     (windSpeed planeState)))
                             (magVar planeState))]\<rparr>))
        \<and> (\<not> (\<exists>w. currentWaypoint = Some w \<and> endsInDiscontinuity w)
             \<and> (\<exists>n. getWaypoint (fpm_flightPlan s) (activeWaypointIndex (fpm_flightPlan s) + 1) = Some n
                     \<and> isRunway n) \<longrightarrow>
           sequenceToNextWaypoint g e planeState currentWaypoint s =
             Inr (s\<lparr>sequencingMode := INHIBIT,
                    state := TURN_COMPLETING,
                    fpm_flightPlan := (fpm_flightPlan s)
                      \<lparr>activeWaypointIndex := activeWaypointIndex (fpm_flightPlan s) + 1\<rparr>\<rparr>))
        \<and> (\<not> (\<exists>w. currentWaypoint = Some w \<and> endsInDiscontinuity w)
             \<and> \<not> (\<exists>n. getWaypoint (fpm_flightPlan s) (activeWaypointIndex (fpm_flightPlan s) + 1) = Some n
                     \<and> isRunway n) \<longrightarrow>
           sequenceToNextWaypoint g e planeState currentWaypoint s =
             Inr (s\<lparr>state := TURN_COMPLETING,
                    fpm_flightPlan := (fpm_flightPlan s)
                      \<lparr>activeWaypointIndex := activeWaypointIndex (fpm_flightPlan s) + 1\<rparr>\<rparr>)))"
  by (auto simp add: sequenceToNextWaypoint_def setActiveWaypointIndex_def setCourse_def RAD2DEG_def
        Let_def split: option.splits)

lemma toRunway_lookup:
  "getWaypoint \<lparr>waypoints = toRunway, activeWaypointIndex = i\<rparr> 0 = Some (waypointAt 0 0)"
  "getWaypoint \<lparr>waypoints = toRunway, activeWaypointIndex = i\<rparr> 1 = Some (waypointAt 1 0)"
  "getWaypoint \<lparr>waypoints = toRunway, activeWaypointIndex = i\<rparr> 2 = Some ((waypointAt 2 0)\<lparr>isRunway := True\<rparr>)"
  "getWaypoint \<lparr>waypoints = toRunway, activeWaypointIndex = i\<rparr> 3 = None"
  "getWaypoint \<lparr>waypoints = toRunway, activeWaypointIndex = i\<rparr> (- 1) = None"
  by (simp_all add: getWaypoint_def toRunway_def)

lemma eastbound_state:
  "trueHeading (getAircraftState eastbound) = 90"
  "magVar (getAircraftState eastbound) = 10"
  "groundSpeed (getAircraftState eastbound) = 250"
  "trueAirspeed (getAircraftState eastbound) = 250"
  "windDirection (getAircraftState eastbound) = 0"
  "windSpeed (getAircraftState eastbound) = 0"
  "sim_PLANE_HEADING_DEGREES_TRUE eastbound * (180 / pi) = 90"
  by (simp_all add: getAircraftState_def eastbound_def northbound_def RAD2DEG_def)

text \<open>
  The four cases at work, for an aircraft heading 90 degrees true where the variation is 10
  degrees: after a waypoint that ends in a discontinuity the heading commanded is 80 degrees
  magnetic; before a runway; in the middle of the plan; and with sequencing inhibited.
\<close>

theorem sequencing_rule_witness:
  "sequencingMode (directorOn toRunway 1 TRACKING) \<noteq> INHIBIT
   \<and> groundSpeed (getAircraftState eastbound) > 25
   \<and> activeFlightPlan (directorOn toRunway 1 TRACKING) \<noteq> None
   \<and> sim_PLANE_HEADING_DEGREES_TRUE eastbound * (180 / pi) = 90
   \<and> magVar (getAircraftState eastbound) = 10
   \<and> sequenceToNextWaypoint (exampleCollaborators 0) eastbound (getAircraftState eastbound)
        (Some ((waypointAt 1 0)\<lparr>endsInDiscontinuity := True\<rparr>)) (directorOn toRunway 1 TRACKING)
      = Inr ((directorOn toRunway 1 IN_DISCONTINUITY)
               \<lparr>sequencingMode := INHIBIT,
                L_WT_CJ4_IN_DISCONTINUITY := 1,
                HEADING_BUG_SET := [(2, 80)]\<rparr>)
   \<and> sequenceToNextWaypoint (exampleCollaborators 0) eastbound (getAircraftState eastbound)
        (Some (waypointAt 1 0)) (directorOn toRunway 1 TRACKING)
      = Inr ((directorOn toRunway 2 TURN_COMPLETING)\<lparr>sequencingMode := INHIBIT\<rparr>)
   \<and> sequenceToNextWaypoint (exampleCollaborators 0) eastbound (getAircraftState eastbound)
        (Some (waypointAt 0 0)) (directorOn toRunway 0 TRACKING)
      = Inr (directorOn toRunway 1 TURN_COMPLETING)
   \<and> sequenceToNextWaypoint (exampleCollaborators 0) eastbound (getAircraftState eastbound)
        (Some (waypointAt 1 0)) ((directorOn toRunway 1 TRACKING)\<lparr>sequencingMode := INHIBIT\<rparr>)
      = Inr ((directorOn toRunway 1 TRACKING)\<lparr>sequencingMode := INHIBIT\<rparr>)"
proof -
  have h: "sequencingMode (directorOn toRunway 1 TRACKING) \<noteq> INHIBIT
     \<and> groundSpeed (getAircraftState eastbound) > 25
     \<and> activeFlightPlan (directorOn toRunway 1 TRACKING) \<noteq> None"
    by (simp add: directorOn_def eastbound_state)
  have h0: "sequencingMode (directorOn toRunway 0 TRACKING) \<noteq> INHIBIT
     \<and> activeFlightPlan (directorOn toRunway 0 TRACKING) \<noteq> None"
    by (simp add: directorOn_def)
  have d1: "\<exists>w. Some ((waypointAt 1 0)\<lparr>endsInDiscontinuity := True\<rparr>) = Some w \<and> endsInDiscontinuity w"
    by simp
  have d: "\<not> (\<exists>w. Some (waypointAt 1 0) = Some w \<and> endsInDiscontinuity w)"
    "\<not> (\<exists>w. Some (waypointAt 0 0) = Some w \<and> endsInDiscontinuity w)"
    by (simp_all add: waypointAt_def)
  have n: "\<exists>n. getWaypoint (fpm_flightPlan (directorOn toRunway 1 TRACKING))
                (activeWaypointIndex (fpm_flightPlan (directorOn toRunway 1 TRACKING)) + 1) = Some n
              \<and> isRunway n"
    by (simp add: directorOn_def toRunway_lookup waypointAt_def)
  have n0: "\<not> (\<exists>n. getWaypoint (fpm_flightPlan (directorOn toRunway 0 TRACKING))
                (activeWaypointIndex (fpm_flightPlan (directorOn toRunway 0 TRACKING)) + 1) = Some n
              \<and> isRunway n)"
    by (simp add: directorOn_def toRunway_lookup waypointAt_def)
  have i: "\<not> (sequencingMode ((directorOn toRunway 1 TRACKING)\<lparr>sequencingMode := INHIBIT\<rparr>) \<noteq> INHIBIT
              \<and> groundSpeed (getAircraftState eastbound) > 25)"
    by simp
  from sequencing_rule [of "directorOn toRunway 1 TRACKING" "getAircraftState eastbound"
      "exampleCollaborators 0" eastbound "Some ((waypointAt 1 0)\<lparr>endsInDiscontinuity := True\<rparr>)"] h d1
  have "sequenceToNextWaypoint (exampleCollaborators 0) eastbound (getAircraftState eastbound)
        (Some ((waypointAt 1 0)\<lparr>endsInDiscontinuity := True\<rparr>)) (directorOn toRunway 1 TRACKING)
      = Inr ((directorOn toRunway 1 TRACKING)\<lparr>state := IN_DISCONTINUITY,
                    L_WT_CJ4_IN_DISCONTINUITY := 1,
                    sequencingMode := INHIBIT,
                    HEADING_BUG_SET := HEADING_BUG_SET (directorOn toRunway 1 TRACKING) @
                      [(2, correctMagvar (exampleCollaborators 0)
                             (normalizeHeading (exampleCollaborators 0)
                                (sim_PLANE_HEADING_DEGREES_TRUE eastbound * (180 / pi)
                                 - windCorrectionAngle (exampleCollaborators 0)
                                     (sim_PLANE_HEADING_DEGREES_TRUE eastbound * (180 / pi))
                                     (trueAirspeed (getAircraftState eastbound))
                                     (removeMagvar (exampleCollaborators 0)
                                        (windDirection (getAircraftState eastbound))
                                        (magVar (getAircraftState eastbound)))
                                     (windSpeed (getAircraftState eastbound))))
                             (magVar (getAircraftState eastbound)))]\<rparr>)"
    by blast
  then have a: "sequenceToNextWaypoint (exampleCollaborators 0) eastbound (getAircraftState eastbound)
        (Some ((waypointAt 1 0)\<lparr>endsInDiscontinuity := True\<rparr>)) (directorOn toRunway 1 TRACKING)
      = Inr ((directorOn toRunway 1 IN_DISCONTINUITY)
               \<lparr>sequencingMode := INHIBIT,
                L_WT_CJ4_IN_DISCONTINUITY := 1,
                HEADING_BUG_SET := [(2, 80)]\<rparr>)"
    unfolding eastbound_state by (simp add: directorOn_def exampleCollaborators_def)
  from sequencing_rule [of "directorOn toRunway 1 TRACKING" "getAircraftState eastbound"
      "exampleCollaborators 0" eastbound "Some (waypointAt 1 0)"] h d(1) n
  have "sequenceToNextWaypoint (exampleCollaborators 0) eastbound (getAircraftState eastbound)
        (Some (waypointAt 1 0)) (directorOn toRunway 1 TRACKING)
      = Inr ((directorOn toRunway 1 TRACKING)\<lparr>sequencingMode := INHIBIT,
                    state := TURN_COMPLETING,
                    fpm_flightPlan := (fpm_flightPlan (directorOn toRunway 1 TRACKING))
                      \<lparr>activeWaypointIndex := activeWaypointIndex (fpm_flightPlan (directorOn toRunway 1 TRACKING)) + 1\<rparr>\<rparr>)"
    by blast
  then have b: "sequenceToNextWaypoint (exampleCollaborators 0) eastbound (getAircraftState eastbound)
        (Some (waypointAt 1 0)) (directorOn toRunway 1 TRACKING)
      = Inr ((directorOn toRunway 2 TURN_COMPLETING)\<lparr>sequencingMode := INHIBIT\<rparr>)"
    by (simp add: directorOn_def)
  from sequencing_rule [of "directorOn toRunway 0 TRACKING" "getAircraftState eastbound"
      "exampleCollaborators 0" eastbound "Some (waypointAt 0 0)"] h h0 d(2) n0
  have "sequenceToNextWaypoint (exampleCollaborators 0) eastbound (getAircraftState eastbound)
        (Some (waypointAt 0 0)) (directorOn toRunway 0 TRACKING)
      = Inr ((directorOn toRunway 0 TRACKING)\<lparr>state := TURN_COMPLETING,
                    fpm_flightPlan := (fpm_flightPlan (directorOn toRunway 0 TRACKING))
                      \<lparr>activeWaypointIndex := activeWaypointIndex (fpm_flightPlan (directorOn toRunway 0 TRACKING)) + 1\<rparr>\<rparr>)"
    by blast
  then have c: "sequenceToNextWaypoint (exampleCollaborators 0) eastbound (getAircraftState eastbound)
        (Some (waypointAt 0 0)) (directorOn toRunway 0 TRACKING)
      = Inr (directorOn toRunway 1 TURN_COMPLETING)"
    by (simp add: directorOn_def)
  from sequencing_rule [of "(directorOn toRunway 1 TRACKING)\<lparr>sequencingMode := INHIBIT\<rparr>"
      "getAircraftState eastbound" "exampleCollaborators 0" eastbound "Some (waypointAt 1 0)"] i
  have e: "sequenceToNextWaypoint (exampleCollaborators 0) eastbound (getAircraftState eastbound)
        (Some (waypointAt 1 0)) ((directorOn toRunway 1 TRACKING)\<lparr>sequencingMode := INHIBIT\<rparr>)
      = Inr ((directorOn toRunway 1 TRACKING)\<lparr>sequencingMode := INHIBIT\<rparr>)"
    by blast
  have m: "sim_PLANE_HEADING_DEGREES_TRUE eastbound * (180 / pi) = 90
      \<and> magVar (getAircraftState eastbound) = 10"
    using eastbound_state(2,7) by blast
  from h m a b c e show ?thesis by blast
qed

subsection \<open>Completing a turn\<close>

lemma setCourse_frame [simp]:
  "state (setCourse g c p s) = state s"
  "sequencingMode (setCourse g c p s) = sequencingMode s"
  "fpm_flightPlan (setCourse g c p s) = fpm_flightPlan s"
  "activeFlightPlan (setCourse g c p s) = activeFlightPlan s"
  "options (setCourse g c p s) = options s"
  by (simp_all add: setCourse_def Let_def)

lemma trackLeg_frame [simp]:
  "state (trackLeg g e a b p x s) = state s"
  "sequencingMode (trackLeg g e a b p x s) = sequencingMode s"
  "fpm_flightPlan (trackLeg g e a b p x s) = fpm_flightPlan s"
  "activeFlightPlan (trackLeg g e a b p x s) = activeFlightPlan s"
  "options (trackLeg g e a b p x s) = options s"
  "HEADING_BUG_SET (trackLeg g e a b p False s) = HEADING_BUG_SET s"
  by (simp_all add: trackLeg_def Let_def)

lemma northbound_state:
  "trueHeading (getAircraftState northbound) = 0"
  "magVar (getAircraftState northbound) = 0"
  "groundSpeed (getAircraftState northbound) = 250"
  by (simp_all add: getAircraftState_def northbound_def)

text \<open>
  What the handler does, by the signed angle from the current true heading to the desired
  track of the leg: below the rollout threshold it goes to \<open>TRACKING\<close> and commands
  nothing; from the threshold on it tracks the leg without executing it and commands the
  current true heading plus 90 degrees times the sign of the angle.
\<close>

lemma handleTurnCompleting_cases:
  "(angleDiff g (trueHeading (getAircraftState e))
        (desiredTrack g (coordinates p) (coordinates a) (position (getAircraftState e)))
      < degreesRollout (options s)
    \<longrightarrow> handleTurnCompleting g e a (Some p) s = Inr (s\<lparr>state := TRACKING\<rparr>))
   \<and> (degreesRollout (options s)
        \<le> angleDiff g (trueHeading (getAircraftState e))
             (desiredTrack g (coordinates p) (coordinates a) (position (getAircraftState e)))
      \<longrightarrow> handleTurnCompleting g e a (Some p) s =
            Inr (setCourse g
                   (normalizeHeading g
                      (trueHeading (getAircraftState e)
                       + sgn (angleDiff g (trueHeading (getAircraftState e))
                                (desiredTrack g (coordinates p) (coordinates a)
                                   (position (getAircraftState e)))) * 90))
                   (getAircraftState e)
                   (trackLeg g e (coordinates p) (coordinates a) (getAircraftState e) False s)))"
  by (simp add: handleTurnCompleting_def Let_def)

text \<open>
  C7 holds of the handler for turns to the right only. The handler takes the sign of the
  angle for the turn direction, but it compares the signed angle, not its magnitude, with
  the rollout threshold. Heading north with a desired track of 270 degrees, the angle is
  \<open>-90\<close> degrees, 90 degrees of turn to the left remain, far beyond the threshold of 15
  degrees, and the handler goes to \<open>TRACKING\<close> at once: it commands no turn heading and
  tracks nothing.
\<close>

theorem left_turn_goes_to_tracking:
  "trueHeading (getAircraftState northbound) = 0
   \<and> desiredTrack (exampleCollaborators 270) (coordinates (waypointAt 0 0)) (coordinates (waypointAt 1 0))
        (position (getAircraftState northbound)) = 270
   \<and> angleDiff (exampleCollaborators 270) 0 270 = - 90
   \<and> degreesRollout (options (directorOn toRunway 1 TURN_COMPLETING)) = 15
   \<and> handleTurnCompleting (exampleCollaborators 270) northbound (waypointAt 1 0) (Some (waypointAt 0 0))
       (directorOn toRunway 1 TURN_COMPLETING)
     = Inr (directorOn toRunway 1 TRACKING)
   \<and> HEADING_BUG_SET (directorOn toRunway 1 TRACKING) = []"
  by (simp add: handleTurnCompleting_def Let_def northbound_state
        exampleCollaborators_def directorOn_def LNavDirectorOptions_constructor_def)

subsection \<open>Tracking at the ends of the plan\<close>

lemma delegateToHoldsDirector_frame [simp]:
  "state (snd (delegateToHoldsDirector g w s)) = state s"
  "fpm_flightPlan (snd (delegateToHoldsDirector g w s)) = fpm_flightPlan s"
  "activeFlightPlan (snd (delegateToHoldsDirector g w s)) = activeFlightPlan s"
  "sequencingMode (snd (delegateToHoldsDirector g w s)) = sequencingMode s"
  by (simp_all add: delegateToHoldsDirector_def Let_def split: option.split)

lemma alertIfClose_frame [simp]:
  "state (alertIfClose p d q s) = state s"
  "fpm_flightPlan (alertIfClose p d q s) = fpm_flightPlan s"
  "activeFlightPlan (alertIfClose p d q s) = activeFlightPlan s"
  "sequencingMode (alertIfClose p d q s) = sequencingMode s"
  "options (alertIfClose p d q s) = options s"
  by (simp_all add: alertIfClose_def Let_def)

lemma sequenceToNextWaypoint_total:
  "activeFlightPlan s \<noteq> None \<Longrightarrow> \<exists>t. sequenceToNextWaypoint g e p w s = Inr t"
  by (auto simp add: sequenceToNextWaypoint_def Let_def)

lemma handleTracking_error:
  assumes "activeFlightPlan s \<noteq> None"
  shows "handleTracking g e a prev s = Inl TypeError \<longleftrightarrow>
     prev = None \<or> getWaypoint (fpm_flightPlan s) (activeWaypointIndex (fpm_flightPlan s) + 1) = None"
proof (cases "prev = None \<or> getWaypoint (fpm_flightPlan s) (activeWaypointIndex (fpm_flightPlan s) + 1) = None")
  case True
  with assms show ?thesis
    by (auto simp add: handleTracking_def Let_def split: option.splits)
next
  case False
  then obtain p n where pn: "prev = Some p"
      "getWaypoint (fpm_flightPlan s) (activeWaypointIndex (fpm_flightPlan s) + 1) = Some n"
    by auto
  let ?ps = "getAircraftState e"
  let ?d = "distanceTo g (position ?ps) (coordinates a) / 1852"
  let ?s1 = "alertIfClose ?ps ?d 0 s"
  have a1: "activeFlightPlan ?s1 \<noteq> None" using assms by simp
  obtain t1 where t1: "sequenceToNextWaypoint g e ?ps (Some a) ?s1 = Inr t1"
    using sequenceToNextWaypoint_total [OF a1] by blast
  let ?ad = "getAnticipationDistance g (options ?s1) ?ps
        (angleDiff g (initialBearingTo g (position ?ps) (coordinates a))
           (initialBearingTo g (coordinates a) (coordinates n)))"
  let ?s2 = "alertIfClose ?ps ?d ?ad ?s1"
  have a2: "activeFlightPlan ?s2 \<noteq> None" using assms by simp
  obtain t2 where t2: "sequenceToNextWaypoint g e ?ps (Some a) ?s2 = Inr t2"
    using sequenceToNextWaypoint_total [OF a2] by blast
  have "\<exists>t. handleTracking g e a prev s = Inr t"
    using assms pn t1 t2
    by (auto simp add: handleTracking_def Let_def split: option.splits)
  with False show ?thesis by auto
qed

text \<open>
  C10. Take an update cycle of the lateral director in the tracking state on an unchanged
  plan, with an active waypoint that is not handed to the holds director. The cycle throws
  exactly when the plan has no waypoint before the active one or none after it; so does the
  tracking handler for whatever previous waypoint it is given. The waypoint lookups are
  options, and the error branches are reached for a plan whose active waypoint is its first
  or its last.
\<close>

theorem tracking_needs_neighbours:
  assumes "currentFlightPlanVersion s = sim_FlightPlan_Version e"
    and "activeFlightPlan s \<noteq> None"
    and "state s = TRACKING"
    and "getWaypoint (fpm_flightPlan s) (activeWaypointIndex (fpm_flightPlan s)) = Some a"
    and "\<not> fst (delegateToHoldsDirector g (Some a) s)"
  shows "(LNavDirector_update g e s = Inl TypeError \<longleftrightarrow>
            getWaypoint (fpm_flightPlan s) (activeWaypointIndex (fpm_flightPlan s) - 1) = None
            \<or> getWaypoint (fpm_flightPlan s) (activeWaypointIndex (fpm_flightPlan s) + 1) = None)
       \<and> (handleTracking g e a prev s = Inl TypeError \<longleftrightarrow>
            prev = None
            \<or> getWaypoint (fpm_flightPlan s) (activeWaypointIndex (fpm_flightPlan s) + 1) = None)"
proof -
  obtain b t where d: "delegateToHoldsDirector g (Some a) s = (b, t)"
    by (cases "delegateToHoldsDirector g (Some a) s")
  with assms(5) have b: "\<not> b" by simp
  from d have t: "t = snd (delegateToHoldsDirector g (Some a) s)" by simp
  have f: "state t = TRACKING" "fpm_flightPlan t = fpm_flightPlan s" "activeFlightPlan t \<noteq> None"
    using assms(2,3) by (simp_all add: t)
  obtain r where r: "activeFlightPlan s = Some r" using assms(2) by auto
  have "LNavDirector_update g e s =
          handleTracking g e a (getWaypoint (fpm_flightPlan s) (activeWaypointIndex (fpm_flightPlan s) - 1)) t"
    using assms(1,4) r d b f(1) by (simp add: LNavDirector_update_def Let_def)
  with handleTracking_error [OF f(3), of g e a] handleTracking_error [OF assms(2), of g e a prev] f(2)
  show ?thesis by simp
qed

theorem tracking_needs_neighbours_witness:
  "currentFlightPlanVersion (directorOn toRunway 2 TRACKING) = sim_FlightPlan_Version northbound
   \<and> activeFlightPlan (directorOn toRunway 2 TRACKING) \<noteq> None
   \<and> state (directorOn toRunway 2 TRACKING) = TRACKING
   \<and> getWaypoint (fpm_flightPlan (directorOn toRunway 2 TRACKING))
        (activeWaypointIndex (fpm_flightPlan (directorOn toRunway 2 TRACKING)))
      = Some ((waypointAt 2 0)\<lparr>isRunway := True\<rparr>)
   \<and> \<not> fst (delegateToHoldsDirector (exampleCollaborators 0) (Some ((waypointAt 2 0)\<lparr>isRunway := True\<rparr>))
              (directorOn toRunway 2 TRACKING))
   \<and> LNavDirector_update (exampleCollaborators 0) northbound (directorOn toRunway 2 TRACKING)
      = Inl TypeError"
proof -
  have h: "currentFlightPlanVersion (directorOn toRunway 2 TRACKING) = sim_FlightPlan_Version northbound"
    "activeFlightPlan (directorOn toRunway 2 TRACKING) \<noteq> None"
    "state (directorOn toRunway 2 TRACKING) = TRACKING"
    "getWaypoint (fpm_flightPlan (directorOn toRunway 2 TRACKING))
        (activeWaypointIndex (fpm_flightPlan (directorOn toRunway 2 TRACKING)))
      = Some ((waypointAt 2 0)\<lparr>isRunway := True\<rparr>)"
    "\<not> fst (delegateToHoldsDirector (exampleCollaborators 0) (Some ((waypointAt 2 0)\<lparr>isRunway := True\<rparr>))
              (directorOn toRunway 2 TRACKING))"
    by (simp_all add: directorOn_def northbound_def toRunway_lookup delegateToHoldsDirector_def
          waypointAt_def)
  have n: "getWaypoint (fpm_flightPlan (directorOn toRunway 2 TRACKING))
        (activeWaypointIndex (fpm_flightPlan (directorOn toRunway 2 TRACKING)) + 1) = None"
    by (simp add: directorOn_def toRunway_lookup)
  from tracking_needs_neighbours [OF h, where prev = None] n h show ?thesis by blast
qed

end
